theory Spec2Isabelle
  imports Main "HOL-Library.Word" "HOL-Library.Sublist"
begin

unbundle bit_operations_syntax

section \<open>The unified Xen driver (src/xen/xen\_driver.c)\<close>

text \<open>
  The unified driver sits on top of the Xen sub-drivers (hypervisor, XenD, XenStore, XM
  and, when compiled in, inotify) and decides for every operation which of them is
  called. The sub-drivers themselves live in other files; wherever the unified driver
  calls one of them, the model takes the value that call returns from an environment
  and records the call in a trace, so that theorems can speak about which sub-driver
  was consulted and in which order.
\<close>

subsection \<open>Sub-drivers\<close>

datatype backend = Hypervisor | XenD | XS | XM | Inotify

subsection \<open>Constants of headers, session data\<close>

text \<open>
  The file uses constants that are declared in headers outside it: the XenD
  configuration versions, the VCPU flag bits, the two build switches, the state
  directory prefix and the \<open>XEN_UNIFIED_*_OFFSET\<close> slot numbers with
  \<open>XEN_UNIFIED_NR_DRIVERS\<close>. They are parameters of the model, collected in one record. The slot numbers are given as
  \<open>slots\<close>, the sub-drivers in ascending slot order (its length is
  \<open>XEN_UNIFIED_NR_DRIVERS\<close>), so that a \<open>for\<close> loop over the slot index is a
  traversal of \<open>slots\<close>, and \<open>priv->opened[XEN_UNIFIED_X_OFFSET]\<close> is
  \<open>opened priv X\<close>.
\<close>

record hdr =
  XEND_CONFIG_VERSION_3_0_3 :: int
  XEND_CONFIG_VERSION_3_0_4 :: int
  VIR_DOMAIN_VCPU_LIVE :: "32 word"
  VIR_DOMAIN_VCPU_CONFIG :: "32 word"
  VIR_DOMAIN_VCPU_MAXIMUM :: "32 word"
  WITH_XEN_INOTIFY :: bool
  WITH_LIBXL :: bool
  LOCALSTATEDIR :: string
  slots :: "backend list"

text \<open>One choice of these constants, used for the concrete examples below.\<close>

definition example_hdr :: hdr where
  "example_hdr =
     \<lparr>XEND_CONFIG_VERSION_3_0_3 = 2, XEND_CONFIG_VERSION_3_0_4 = 3,
      VIR_DOMAIN_VCPU_LIVE = 1, VIR_DOMAIN_VCPU_CONFIG = 2, VIR_DOMAIN_VCPU_MAXIMUM = 4,
      WITH_XEN_INOTIFY = True, WITH_LIBXL = False, LOCALSTATEDIR = ''/var'',
      slots = [Hypervisor, XenD, XS, XM, Inotify]\<rparr>"

text \<open>
  \<open>xenUnifiedPrivate\<close>, the per-connection data: the fields this file reads or writes.
  \<open>VIR_ALLOC\<close> zero-fills it.
\<close>

record xenUnifiedPrivate =
  opened :: "backend \<Rightarrow> bool"
  xendConfigVersion :: int
  handle :: int
  nbNodeCells :: int
  nbNodeCpus :: int
  caps :: bool
  xmlopt :: bool
  saveDir :: "string option"

record virDomain =
  dom_id :: int
  dom_name :: string

datatype virErrorNumber =
    VIR_ERR_INVALID_ARG
  | VIR_ERR_NO_SUPPORT
  | VIR_ERR_INTERNAL_ERROR
  | VIR_ERR_NO_MEMORY

text \<open>
  A dispatch function yields the value it returns, the error it reports itself through
  \<open>virReportError\<close> (errors reported inside a sub-driver are the sub-driver's), and
  the sub-drivers it called, in call order. The value a sub-driver's function returns
  when called comes from the environment \<open>sub\<close>; every dispatch function calls a
  sub-driver at most once, so one value per sub-driver is enough.
\<close>

type_synonym 'r dispatched = "'r \<times> virErrorNumber option \<times> backend list"

text \<open>
  Modelled from the spec: the macro \<open>virCheckFlags(supported, retval)\<close> is defined in
  a header outside this file. Following the specification (flag validation happens
  before any sub-driver is consulted and yields an invalid-argument error), a flag
  word with a bit outside \<open>supported\<close> makes the calling function report
  \<open>VIR_ERR_INVALID_ARG\<close> and return \<open>retval\<close>. \<open>virCheckFlags\<close> below is true
  when the flags pass.
\<close>

definition virCheckFlags :: "32 word \<Rightarrow> 32 word \<Rightarrow> bool" where
  "virCheckFlags flags supported = (flags AND NOT supported = 0)"

subsection \<open>VCPU counts (xenUnifiedDomainSetVcpusFlags, xenUnifiedDomainGetVcpusFlags)\<close>

text \<open>
  \<open>nvcpus\<close> and \<open>flags\<close> are \<open>unsigned int\<close>; the cast \<open>(unsigned short) nvcpus\<close>
  keeps the low 16 bits. \<open>-2\<close> is the value by which XenD and XM decline.
\<close>

definition xenUnifiedDomainSetVcpusFlags ::
  "hdr \<Rightarrow> (backend \<Rightarrow> int) \<Rightarrow> xenUnifiedPrivate \<Rightarrow> 32 word \<Rightarrow> 32 word \<Rightarrow> int dispatched" where
  "xenUnifiedDomainSetVcpusFlags h sub priv nvcpus flags =
     (if \<not> virCheckFlags flags
            (VIR_DOMAIN_VCPU_LIVE h OR VIR_DOMAIN_VCPU_CONFIG h OR VIR_DOMAIN_VCPU_MAXIMUM h)
      then (- 1, Some VIR_ERR_INVALID_ARG, [])
      else if flags AND (VIR_DOMAIN_VCPU_LIVE h OR VIR_DOMAIN_VCPU_CONFIG h) = 0
            \<or> flags AND (VIR_DOMAIN_VCPU_MAXIMUM h OR VIR_DOMAIN_VCPU_LIVE h)
                = (VIR_DOMAIN_VCPU_MAXIMUM h OR VIR_DOMAIN_VCPU_LIVE h)
      then (- 1, Some VIR_ERR_INVALID_ARG, [])
      else if nvcpus = 0 \<or> ucast (ucast nvcpus :: 16 word) \<noteq> nvcpus
      then (- 1, Some VIR_ERR_INVALID_ARG, [])
      else
        let t1 = (if opened priv XenD then [XenD] else [])
        in if opened priv XenD \<and> sub XenD \<noteq> - 2 then (sub XenD, None, t1)
        else
          let t2 = t1 @ (if opened priv XM then [XM] else [])
          in if opened priv XM \<and> sub XM \<noteq> - 2 then (sub XM, None, t2)
          else if flags = VIR_DOMAIN_VCPU_LIVE h
          then (sub Hypervisor, None, t2 @ [Hypervisor])
          else (- 1, Some VIR_ERR_NO_SUPPORT, t2))"

definition xenUnifiedDomainGetVcpusFlags ::
  "hdr \<Rightarrow> (backend \<Rightarrow> int) \<Rightarrow> xenUnifiedPrivate \<Rightarrow> 32 word \<Rightarrow> int dispatched" where
  "xenUnifiedDomainGetVcpusFlags h sub priv flags =
     (if \<not> virCheckFlags flags
            (VIR_DOMAIN_VCPU_LIVE h OR VIR_DOMAIN_VCPU_CONFIG h OR VIR_DOMAIN_VCPU_MAXIMUM h)
      then (- 1, Some VIR_ERR_INVALID_ARG, [])
      else
        let t1 = (if opened priv XenD then [XenD] else [])
        in if opened priv XenD \<and> sub XenD \<noteq> - 2 then (sub XenD, None, t1)
        else
          let t2 = t1 @ (if opened priv XM then [XM] else [])
          in if opened priv XM \<and> sub XM \<noteq> - 2 then (sub XM, None, t2)
          else if flags = (VIR_DOMAIN_VCPU_CONFIG h OR VIR_DOMAIN_VCPU_MAXIMUM h)
          then (sub Hypervisor, None, t2 @ [Hypervisor])
          else (- 1, Some VIR_ERR_NO_SUPPORT, t2))"

text \<open>
  The statements of the two VCPU functions after their argument checks are the same
  up to the condition under which the hypervisor is called last; \<open>vcpus_fallback\<close>
  is that common tail, used to reason about both at once.
\<close>

definition vcpus_fallback :: "(backend \<Rightarrow> int) \<Rightarrow> xenUnifiedPrivate \<Rightarrow> bool \<Rightarrow> int dispatched" where
  "vcpus_fallback sub priv direct =
     (let t1 = (if opened priv XenD then [XenD] else [])
      in if opened priv XenD \<and> sub XenD \<noteq> - 2 then (sub XenD, None, t1)
      else
        let t2 = t1 @ (if opened priv XM then [XM] else [])
        in if opened priv XM \<and> sub XM \<noteq> - 2 then (sub XM, None, t2)
        else if direct then (sub Hypervisor, None, t2 @ [Hypervisor])
        else (- 1, Some VIR_ERR_NO_SUPPORT, t2))"

text \<open>A session with every sub-driver activated, for the concrete examples.\<close>

definition example_priv :: "int \<Rightarrow> xenUnifiedPrivate" where
  "example_priv v =
     \<lparr>opened = (\<lambda>b. True), xendConfigVersion = v, handle = - 1,
      nbNodeCells = 1, nbNodeCpus = 4, caps = True, xmlopt = True,
      saveDir = Some ''/var/lib/libvirt/xen/save''\<rparr>"

text \<open>Environments for the concrete examples.\<close>

definition all_succeed :: "backend \<Rightarrow> int" where
  "all_succeed b = 0"





definition vm1 :: "int \<Rightarrow> virDomain" where
  "vm1 i = \<lparr>dom_id = i, dom_name = ''vm1''\<rparr>"

subsection \<open>Operations routed by the XenD configuration version\<close>





subsection \<open>The driver table and the scheduler parameter loops\<close>

text \<open>
  \<open>drivers\<close> is an array of \<open>XEN_UNIFIED_NR_DRIVERS\<close> pointers with designated
  initialisers for the hypervisor, XenD and XM slots only; the other slots are
  \<open>NULL\<close>. The three structures are defined in the sub-drivers' files, so they are a
  parameter. Of \<open>struct xenUnifiedDriver\<close> the model keeps the per-VCPU information
  handler and the two scheduler handlers: \<open>None\<close> is a \<open>NULL\<close> function pointer,
  \<open>Some r\<close> a handler whose call returns \<open>r\<close>.
\<close>

record xenUnifiedDriver =
  xenDomainGetVcpus :: "int option"
  xenDomainGetSchedulerParameters :: "int option"
  xenDomainSetSchedulerParameters :: "int option"

definition drivers :: "(backend \<Rightarrow> xenUnifiedDriver) \<Rightarrow> backend \<Rightarrow> xenUnifiedDriver option" where
  "drivers structs b =
     (case b of
        Hypervisor \<Rightarrow> Some (structs Hypervisor)
      | XenD \<Rightarrow> Some (structs XenD)
      | XM \<Rightarrow> Some (structs XM)
      | XS \<Rightarrow> None
      | Inotify \<Rightarrow> None)"

text \<open>
  The loop body is \<open>if (priv->opened[i] && drivers[i]->handler) { ret = handler(...);
  if (ret == 0) return 0; }\<close>. For an activated slot the code reads
  \<open>drivers[i]->handler\<close> without testing \<open>drivers[i]\<close>; on a \<open>NULL\<close> slot this is
  a null pointer dereference, which the model reports as the result \<open>None\<close> (with the
  calls made until then). Otherwise the result is \<open>Some\<close> of the returned value.
\<close>

fun get_sched_loop ::
  "(backend \<Rightarrow> xenUnifiedDriver) \<Rightarrow> xenUnifiedPrivate \<Rightarrow> backend list \<Rightarrow> int option \<times> backend list" where
  "get_sched_loop structs priv [] = (Some (- 1), [])"
| "get_sched_loop structs priv (b # bs) =
     (if opened priv b then
        (case drivers structs b of
           None \<Rightarrow> (None, [])
         | Some drv \<Rightarrow>
             (case xenDomainGetSchedulerParameters drv of
                None \<Rightarrow> get_sched_loop structs priv bs
              | Some ret \<Rightarrow>
                  if ret = 0 then (Some 0, [b])
                  else (case get_sched_loop structs priv bs of (r, t) \<Rightarrow> (r, b # t))))
      else get_sched_loop structs priv bs)"

fun set_sched_loop ::
  "(backend \<Rightarrow> xenUnifiedDriver) \<Rightarrow> xenUnifiedPrivate \<Rightarrow> backend list \<Rightarrow> int option \<times> backend list" where
  "set_sched_loop structs priv [] = (Some (- 1), [])"
| "set_sched_loop structs priv (b # bs) =
     (if opened priv b then
        (case drivers structs b of
           None \<Rightarrow> (None, [])
         | Some drv \<Rightarrow>
             (case xenDomainSetSchedulerParameters drv of
                None \<Rightarrow> set_sched_loop structs priv bs
              | Some ret \<Rightarrow>
                  if ret = 0 then (Some 0, [b])
                  else (case set_sched_loop structs priv bs of (r, t) \<Rightarrow> (r, b # t))))
      else set_sched_loop structs priv bs)"

text \<open>
  The getter runs \<open>i\<close> from \<open>0\<close> up to \<open>XEN_UNIFIED_NR_DRIVERS - 1\<close>, the setter from
  \<open>XEN_UNIFIED_NR_DRIVERS - 1\<close> down to \<open>0\<close>. Both accept no flags
  (\<open>virCheckFlags(0, -1)\<close>).
\<close>

definition xenUnifiedDomainGetSchedulerParametersFlags ::
  "hdr \<Rightarrow> (backend \<Rightarrow> xenUnifiedDriver) \<Rightarrow> xenUnifiedPrivate \<Rightarrow> 32 word
     \<Rightarrow> int option dispatched" where
  "xenUnifiedDomainGetSchedulerParametersFlags h structs priv flags =
     (if \<not> virCheckFlags flags 0 then (Some (- 1), Some VIR_ERR_INVALID_ARG, [])
      else (case get_sched_loop structs priv (slots h) of (r, t) \<Rightarrow> (r, None, t)))"

definition xenUnifiedDomainSetSchedulerParametersFlags ::
  "hdr \<Rightarrow> (backend \<Rightarrow> xenUnifiedDriver) \<Rightarrow> xenUnifiedPrivate \<Rightarrow> 32 word
     \<Rightarrow> int option dispatched" where
  "xenUnifiedDomainSetSchedulerParametersFlags h structs priv flags =
     (if \<not> virCheckFlags flags 0 then (Some (- 1), Some VIR_ERR_INVALID_ARG, [])
      else (case set_sched_loop structs priv (rev (slots h)) of (r, t) \<Rightarrow> (r, None, t)))"

text \<open>
  For stating what the loops do: the candidates of a traversal are the activated slots
  whose handler is present, and a traversal stops after the first candidate whose call
  returns 0.
\<close>

fun until_first_success :: "(backend \<Rightarrow> int option) \<Rightarrow> backend list \<Rightarrow> backend list" where
  "until_first_success ret [] = []"
| "until_first_success ret (b # bs) =
     (if ret b = Some 0 then [b] else b # until_first_success ret bs)"

text \<open>
  The handler found in a slot (\<open>None\<close> also when the slot has no table entry), the
  candidates of a traversal, and what a traversal \<open>bs\<close> that ended with result and
  calls \<open>res\<close> has to satisfy: the result is a null dereference, 0 or \<open>-1\<close>; it is 0
  exactly when a call returned 0; and unless it ended in a null dereference the calls
  are the candidates in traversal order up to the first success.
\<close>

definition get_handler :: "(backend \<Rightarrow> xenUnifiedDriver) \<Rightarrow> backend \<Rightarrow> int option" where
  "get_handler structs b =
     (case drivers structs b of
        None \<Rightarrow> None
      | Some drv \<Rightarrow> xenDomainGetSchedulerParameters drv)"

definition set_handler :: "(backend \<Rightarrow> xenUnifiedDriver) \<Rightarrow> backend \<Rightarrow> int option" where
  "set_handler structs b =
     (case drivers structs b of
        None \<Rightarrow> None
      | Some drv \<Rightarrow> xenDomainSetSchedulerParameters drv)"

definition candidate :: "xenUnifiedPrivate \<Rightarrow> (backend \<Rightarrow> int option) \<Rightarrow> backend \<Rightarrow> bool" where
  "candidate priv handler b = (opened priv b \<and> handler b \<noteq> None)"

definition loop_post ::
  "xenUnifiedPrivate \<Rightarrow> (backend \<Rightarrow> int option) \<Rightarrow> backend list
     \<Rightarrow> int option \<times> backend list \<Rightarrow> bool" where
  "loop_post priv handler bs res =
     ((fst res = None \<or> fst res = Some 0 \<or> fst res = Some (- 1))
      \<and> (fst res = Some 0) = (\<exists>b \<in> set (snd res). handler b = Some 0)
      \<and> (fst res \<noteq> None \<longrightarrow>
           snd res = until_first_success handler (filter (candidate priv handler) bs)))"

text \<open>
  For the concrete examples: a table in which every structure has both scheduler
  handlers (the getter succeeds in XM only, the setter in XenD only) and the hypervisor
  alone has the per-VCPU information handler (reporting two VCPUs).
\<close>

definition example_structs :: "backend \<Rightarrow> xenUnifiedDriver" where
  "example_structs b =
     \<lparr>xenDomainGetVcpus = (if b = Hypervisor then Some 2 else None),
      xenDomainGetSchedulerParameters = Some (if b = XM then 0 else - 1),
      xenDomainSetSchedulerParameters = Some (if b = XenD then 0 else - 1)\<rparr>"

subsection \<open>The XML description (xenUnifiedDomainGetXMLDesc, xenDomainUsedCpus)\<close>
















subsection \<open>Managed save images\<close>

text \<open>
  The three managed-save functions build the image path with
  \<open>xenUnifiedDomainManagedSavePath\<close> and hand it to \<open>xenDaemonDomainSave\<close>,
  \<open>virFileExists\<close> or \<open>unlink\<close>. Those three calls are recorded with the path they
  receive; what they return is taken from the environment, as a function of the path.
  \<open>virAsprintf\<close> can fail for lack of memory (\<open>asprintf_ok\<close>). \<open>saveDir\<close> is set by
  a successful open; formatting a \<open>NULL\<close> \<open>saveDir\<close> is not defined by C and yields
  no path in the model.
\<close>

datatype save_call =
    DaemonDomainSave string
  | FileExists string
  | Unlink string

record save_env =
  asprintf_ok :: bool
  xenDaemonDomainSave_ret :: "string \<Rightarrow> int"
  virFileExists_ret :: "string \<Rightarrow> bool"
  unlink_ret :: "string \<Rightarrow> int"

definition xenUnifiedDomainManagedSavePath ::
  "save_env \<Rightarrow> xenUnifiedPrivate \<Rightarrow> virDomain \<Rightarrow> string option" where
  "xenUnifiedDomainManagedSavePath env priv d =
     (if \<not> asprintf_ok env then None
      else (case saveDir priv of
              None \<Rightarrow> None
            | Some dir \<Rightarrow> Some (dir @ ''/'' @ dom_name d @ ''.save'')))"

definition xenUnifiedDomainManagedSave ::
  "save_env \<Rightarrow> xenUnifiedPrivate \<Rightarrow> virDomain \<Rightarrow> 32 word
     \<Rightarrow> int \<times> virErrorNumber option \<times> save_call list" where
  "xenUnifiedDomainManagedSave env priv d flags =
     (if \<not> virCheckFlags flags 0 then (- 1, Some VIR_ERR_INVALID_ARG, [])
      else (case xenUnifiedDomainManagedSavePath env priv d of
              None \<Rightarrow> (- 1, Some VIR_ERR_NO_MEMORY, [])
            | Some name \<Rightarrow>
                if opened priv XenD
                then (xenDaemonDomainSave_ret env name, None, [DaemonDomainSave name])
                else (- 1, None, [])))"

definition xenUnifiedDomainHasManagedSaveImage ::
  "save_env \<Rightarrow> xenUnifiedPrivate \<Rightarrow> virDomain \<Rightarrow> 32 word
     \<Rightarrow> int \<times> virErrorNumber option \<times> save_call list" where
  "xenUnifiedDomainHasManagedSaveImage env priv d flags =
     (if \<not> virCheckFlags flags 0 then (- 1, Some VIR_ERR_INVALID_ARG, [])
      else (case xenUnifiedDomainManagedSavePath env priv d of
              None \<Rightarrow> (- 1, Some VIR_ERR_NO_MEMORY, [])
            | Some name \<Rightarrow>
                ((if virFileExists_ret env name then 1 else 0), None, [FileExists name])))"

definition xenUnifiedDomainManagedSaveRemove ::
  "save_env \<Rightarrow> xenUnifiedPrivate \<Rightarrow> virDomain \<Rightarrow> 32 word
     \<Rightarrow> int \<times> virErrorNumber option \<times> save_call list" where
  "xenUnifiedDomainManagedSaveRemove env priv d flags =
     (if \<not> virCheckFlags flags 0 then (- 1, Some VIR_ERR_INVALID_ARG, [])
      else (case xenUnifiedDomainManagedSavePath env priv d of
              None \<Rightarrow> (- 1, Some VIR_ERR_NO_MEMORY, [])
            | Some name \<Rightarrow> (unlink_ret env name, None, [Unlink name])))"

text \<open>The path the three functions are to agree on.\<close>

definition managed_save_file :: "string \<Rightarrow> string \<Rightarrow> string" where
  "managed_save_file dir name = dir @ ''/'' @ name @ ''.save''"

text \<open>For the concrete examples: only the image of \<open>vm1\<close> exists.\<close>

definition example_save_env :: save_env where
  "example_save_env =
     \<lparr>asprintf_ok = True,
      xenDaemonDomainSave_ret = (\<lambda>p. 0),
      virFileExists_ret = (\<lambda>p. p = ''/var/lib/libvirt/xen/save/vm1.save''),
      unlink_ret = (\<lambda>p. if p = ''/var/lib/libvirt/xen/save/vm1.save'' then 0 else - 1)\<rparr>"

subsection \<open>Opening a connection (xenUnifiedConnectOpen)\<close>

datatype virDrvOpenStatus = VIR_DRV_OPEN_SUCCESS | VIR_DRV_OPEN_DECLINED | VIR_DRV_OPEN_ERROR

text \<open>A parsed URI: each of the three components read here is a string or \<open>NULL\<close>.\<close>

record virURI =
  uri_scheme :: "string option"
  uri_server :: "string option"
  uri_path :: "string option"

record virConnect =
  uri :: "virURI option"
  privateData :: "xenUnifiedPrivate option"

text \<open>
  Modelled from the spec: \<open>STRCASEEQ\<close> and \<open>STRCASENEQ\<close> are macros of a header
  outside this file. Following the specification (a target is declined when its scheme
  is not one of the two accepted schemes) and the comment at their use, they are
  equality and inequality of strings up to the case of ASCII letters.
\<close>

definition c_tolower :: "char \<Rightarrow> char" where
  "c_tolower c =
     (case map_of (zip ''ABCDEFGHIJKLMNOPQRSTUVWXYZ'' ''abcdefghijklmnopqrstuvwxyz'') c of
        Some l \<Rightarrow> l
      | None \<Rightarrow> c)"

definition STRCASEEQ :: "string \<Rightarrow> string \<Rightarrow> bool" where
  "STRCASEEQ a b = (map c_tolower a = map c_tolower b)"

definition STRCASENEQ :: "string \<Rightarrow> string \<Rightarrow> bool" where
  "STRCASENEQ a b = (map c_tolower a \<noteq> map c_tolower b)"

text \<open>
  What the function takes from outside: the probes, the allocations, what each
  sub-driver's open function returns, and the other initialisation steps.
  \<open>xenDaemonOpen\<close> stores the negotiated configuration version in the private data;
  \<open>xenDaemonOpen_version\<close> is the value found there after the call.
  \<open>xenDaemonNodeGetInfo_ret\<close> is the (nodes, cpus) pair read by \<open>xenNumaInit\<close>, or
  \<open>None\<close> when that call fails.
\<close>

record open_env =
  xenUnifiedProbe_ret :: bool
  virURIParse_ret :: "virURI option"
  xenUnifiedXendProbe_ret :: bool
  alloc_priv_ok :: bool
  virMutexInit_ok :: bool
  virDomainEventStateNew_ok :: bool
  xenHypervisorOpen_ret :: int
  xenDaemonOpen_ret :: int
  xenDaemonOpen_version :: int
  xenXMOpen_ret :: int
  xenStoreOpen_ret :: int
  xenDaemonNodeGetInfo_ret :: "(int \<times> int) option"
  xenHypervisorMakeCapabilities_ok :: bool
  xenDomainXMLConfInit_ok :: bool
  xenInotifyOpen_ret :: int
  strdup_saveDir_ok :: bool
  virFileMakePath_ret :: int

text \<open>
  The trace of an open attempt or of a close: \<open>Trying b\<close> is the call of sub-driver
  \<open>b\<close>'s open function, \<open>Activated b\<close> the assignment \<open>priv->opened[b] = 1\<close>,
  \<open>Closed b\<close> the call of its close function; the other events are the calls of the
  same name, whether they succeed or not: \<open>EventStateNew\<close> and \<open>EventStateFree\<close> are
  \<open>virDomainEventStateNew\<close> and \<open>virDomainEventStateFree\<close> on
  \<open>priv->domainEvents\<close>, \<open>CapsUnref\<close> and \<open>XmloptUnref\<close> are \<open>virObjectUnref\<close> on
  \<open>priv->caps\<close> and \<open>priv->xmlopt\<close>, \<open>FreeSaveDir\<close> and \<open>FreePriv\<close> are
  \<open>VIR_FREE\<close> on \<open>priv->saveDir\<close> and on the private data itself.
\<close>

datatype open_event =
    Trying backend
  | Activated backend
  | Closed backend
  | MutexInit
  | EventStateNew
  | NumaInit
  | MakeCapabilities
  | XMLConfInit
  | MakePath
  | MutexDestroy
  | FreeSaveDir
  | FreePriv
  | EventStateFree
  | CapsUnref
  | XmloptUnref

type_synonym open_result = "virDrvOpenStatus \<times> virConnect \<times> open_event list"

text \<open>
  The \<open>error:\<close> label (lines 431 to 449). It closes the activated sub-drivers,
  destroys the lock and frees the save directory and the private data; it has no call
  on \<open>priv->domainEvents\<close>, \<open>priv->caps\<close> or \<open>priv->xmlopt\<close>.
\<close>

definition open_error :: "hdr \<Rightarrow> virConnect \<Rightarrow> xenUnifiedPrivate \<Rightarrow> open_event list \<Rightarrow> open_result" where
  "open_error h conn priv tr =
     (VIR_DRV_OPEN_ERROR, conn\<lparr>privateData := None\<rparr>,
      tr @ (if WITH_XEN_INOTIFY h \<and> opened priv Inotify then [Closed Inotify] else [])
         @ (if opened priv XM then [Closed XM] else [])
         @ (if opened priv XS then [Closed XS] else [])
         @ (if opened priv XenD then [Closed XenD] else [])
         @ (if opened priv Hypervisor then [Closed Hypervisor] else [])
         @ [MutexDestroy, FreeSaveDir, FreePriv])"

text \<open>
  The body from line 371 on is a straight sequence of steps, each of which either jumps
  to \<open>error\<close> or falls through to the next. The model has one definition per step,
  last step first; each takes the private data and the trace so far.
\<close>

text \<open>Lines 418 to 429: the save directory.\<close>

definition open_savedir :: "hdr \<Rightarrow> open_env \<Rightarrow> virConnect \<Rightarrow> xenUnifiedPrivate \<Rightarrow> open_event list \<Rightarrow> open_result" where
  "open_savedir h env conn priv tr =
     (if \<not> strdup_saveDir_ok env then open_error h conn priv tr
      else
        let priv' = priv\<lparr>saveDir := Some (LOCALSTATEDIR h @ ''/lib/libvirt/xen/save'')\<rparr>
        in if virFileMakePath_ret env < 0 then open_error h conn priv' (tr @ [MakePath])
           else (VIR_DRV_OPEN_SUCCESS, conn\<lparr>privateData := Some priv'\<rparr>, tr @ [MakePath]))"

text \<open>Lines 410 to 416: the inotify sub-driver, when compiled in.\<close>

definition open_inotify :: "hdr \<Rightarrow> open_env \<Rightarrow> virConnect \<Rightarrow> xenUnifiedPrivate \<Rightarrow> open_event list \<Rightarrow> open_result" where
  "open_inotify h env conn priv tr =
     (if WITH_XEN_INOTIFY h then
        (if xenInotifyOpen_ret env < 0 then open_error h conn priv (tr @ [Trying Inotify])
         else open_savedir h env conn (priv\<lparr>opened := (opened priv)(Inotify := True)\<rparr>)
                (tr @ [Trying Inotify, Activated Inotify]))
      else open_savedir h env conn priv tr)"

text \<open>Lines 100 to 114.\<close>

definition xenNumaInit :: "open_env \<Rightarrow> xenUnifiedPrivate \<Rightarrow> xenUnifiedPrivate" where
  "xenNumaInit env priv =
     (case xenDaemonNodeGetInfo_ret env of
        None \<Rightarrow> priv
      | Some (nodes, cpus) \<Rightarrow> priv\<lparr>nbNodeCells := nodes, nbNodeCpus := cpus\<rparr>)"

text \<open>Lines 400 to 408: topology, capabilities, XML options.\<close>

definition open_caps :: "hdr \<Rightarrow> open_env \<Rightarrow> virConnect \<Rightarrow> xenUnifiedPrivate \<Rightarrow> open_event list \<Rightarrow> open_result" where
  "open_caps h env conn priv tr =
     (let priv1 = xenNumaInit env priv
      in if \<not> xenHypervisorMakeCapabilities_ok env
         then open_error h conn priv1 (tr @ [NumaInit, MakeCapabilities])
         else if \<not> xenDomainXMLConfInit_ok env
         then open_error h conn (priv1\<lparr>caps := True\<rparr>)
                (tr @ [NumaInit, MakeCapabilities, XMLConfInit])
         else open_inotify h env conn (priv1\<lparr>caps := True, xmlopt := True\<rparr>)
                (tr @ [NumaInit, MakeCapabilities, XMLConfInit]))"

text \<open>Lines 394 to 398: XenStore.\<close>

definition open_xs :: "hdr \<Rightarrow> open_env \<Rightarrow> virConnect \<Rightarrow> xenUnifiedPrivate \<Rightarrow> open_event list \<Rightarrow> open_result" where
  "open_xs h env conn priv tr =
     (if xenStoreOpen_ret env < 0 then open_error h conn priv (tr @ [Trying XS])
      else open_caps h env conn (priv\<lparr>opened := (opened priv)(XS := True)\<rparr>)
             (tr @ [Trying XS, Activated XS]))"

text \<open>Lines 385 to 392: XM, for an old XenD only.\<close>

definition open_xm :: "hdr \<Rightarrow> open_env \<Rightarrow> virConnect \<Rightarrow> xenUnifiedPrivate \<Rightarrow> open_event list \<Rightarrow> open_result" where
  "open_xm h env conn priv tr =
     (if xendConfigVersion priv \<le> XEND_CONFIG_VERSION_3_0_3 h then
        (if xenXMOpen_ret env < 0 then open_error h conn priv (tr @ [Trying XM])
         else open_xs h env conn (priv\<lparr>opened := (opened priv)(XM := True)\<rparr>)
                (tr @ [Trying XM, Activated XM]))
      else open_xs h env conn priv tr)"

text \<open>Lines 378 to 383: XenD.\<close>

definition open_xend :: "hdr \<Rightarrow> open_env \<Rightarrow> virConnect \<Rightarrow> xenUnifiedPrivate \<Rightarrow> open_event list \<Rightarrow> open_result" where
  "open_xend h env conn priv tr =
     (let priv' = priv\<lparr>xendConfigVersion := xenDaemonOpen_version env\<rparr>
      in if xenDaemonOpen_ret env < 0 then open_error h conn priv' (tr @ [Trying XenD])
         else open_xm h env conn (priv'\<lparr>opened := (opened priv')(XenD := True)\<rparr>)
                (tr @ [Trying XenD, Activated XenD]))"

text \<open>Lines 371 to 376: the hypervisor.\<close>

definition open_hypervisor :: "hdr \<Rightarrow> open_env \<Rightarrow> virConnect \<Rightarrow> xenUnifiedPrivate \<Rightarrow> open_event list \<Rightarrow> open_result" where
  "open_hypervisor h env conn priv tr =
     (if xenHypervisorOpen_ret env < 0 then open_error h conn priv (tr @ [Trying Hypervisor])
      else open_xend h env conn (priv\<lparr>opened := (opened priv)(Hypervisor := True)\<rparr>)
             (tr @ [Trying Hypervisor, Activated Hypervisor]))"

text \<open>
  Lines 344 to 369: the private data is allocated zero-filled, its lock and event state
  are created, and three fields are preset. A failure here returns directly, without
  passing through \<open>error\<close>.
\<close>

definition new_priv :: xenUnifiedPrivate where
  "new_priv =
     \<lparr>opened = (\<lambda>b. False), xendConfigVersion = - 1, handle = - 1,
      nbNodeCells = 0, nbNodeCpus = 0, caps = False, xmlopt = False, saveDir = None\<rparr>"

definition open_session :: "hdr \<Rightarrow> open_env \<Rightarrow> virConnect \<Rightarrow> open_result" where
  "open_session h env conn =
     (if \<not> alloc_priv_ok env then (VIR_DRV_OPEN_ERROR, conn, [])
      else if \<not> virMutexInit_ok env then (VIR_DRV_OPEN_ERROR, conn, [MutexInit, FreePriv])
      else if \<not> virDomainEventStateNew_ok env
      then (VIR_DRV_OPEN_ERROR, conn, [MutexInit, EventStateNew, MutexDestroy, FreePriv])
      else open_hypervisor h env (conn\<lparr>privateData := Some new_priv\<rparr>) new_priv
             [MutexInit, EventStateNew])"

text \<open>
  Lines 296 to 342: the checks that decide whether this driver is the one to handle the
  connection. The result is the status returned at once, or \<open>None\<close> when the function
  goes on, together with the connection, whose URI is filled in when it had none.
  \<open>is_privileged\<close> is the file's global flag.
\<close>

definition open_xend_probe ::
  "hdr \<Rightarrow> open_env \<Rightarrow> virConnect \<Rightarrow> virDrvOpenStatus option \<times> virConnect" where
  "open_xend_probe h env conn =
     (if WITH_LIBXL h \<and> \<not> xenUnifiedXendProbe_ret env then (Some VIR_DRV_OPEN_DECLINED, conn)
      else (None, conn))"

definition open_uri_checks ::
  "hdr \<Rightarrow> bool \<Rightarrow> open_env \<Rightarrow> virConnect \<Rightarrow> virDrvOpenStatus option \<times> virConnect" where
  "open_uri_checks h is_privileged env conn =
     (if \<not> is_privileged then (Some VIR_DRV_OPEN_DECLINED, conn)
      else
        (case uri conn of
           None \<Rightarrow>
             if \<not> xenUnifiedProbe_ret env then (Some VIR_DRV_OPEN_DECLINED, conn)
             else (case virURIParse_ret env of
                     None \<Rightarrow> (Some VIR_DRV_OPEN_ERROR, conn)
                   | Some u \<Rightarrow> open_xend_probe h env (conn\<lparr>uri := Some u\<rparr>))
         | Some u \<Rightarrow>
             (case uri_scheme u of
                None \<Rightarrow> (Some VIR_DRV_OPEN_DECLINED, conn)
              | Some s \<Rightarrow>
                  if STRCASENEQ s ''xen'' \<and> STRCASENEQ s ''http''
                  then (Some VIR_DRV_OPEN_DECLINED, conn)
                  else if (case uri_path u of
                             None \<Rightarrow> False
                           | Some p \<Rightarrow> p \<noteq> [] \<and> p \<noteq> ''/'')
                  then (Some VIR_DRV_OPEN_ERROR, conn)
                  else if STRCASEEQ s ''xen'' \<and> uri_server u \<noteq> None
                  then (Some VIR_DRV_OPEN_DECLINED, conn)
                  else open_xend_probe h env conn)))"

definition xenUnifiedConnectOpen :: "hdr \<Rightarrow> bool \<Rightarrow> open_env \<Rightarrow> virConnect \<Rightarrow> open_result" where
  "xenUnifiedConnectOpen h is_privileged env conn =
     (case open_uri_checks h is_privileged env conn of
        (Some status, conn') \<Rightarrow> (status, conn', [])
      | (None, conn') \<Rightarrow> open_session h env conn')"

text \<open>
  \<open>xenUnifiedConnectClose\<close> (lines 452 to 479) reads \<open>conn->privateData\<close> without a
  test (the result \<open>None\<close> is the dereference of a null pointer), releases the
  capabilities, the XML options and the event state, closes the activated sub-drivers
  in the order of the \<open>error\<close> label, frees the save directory, destroys the lock,
  frees the private data and returns 0.
\<close>

definition xenUnifiedConnectClose ::
  "hdr \<Rightarrow> virConnect \<Rightarrow> (int \<times> virConnect \<times> open_event list) option" where
  "xenUnifiedConnectClose h conn =
     (case privateData conn of
        None \<Rightarrow> None
      | Some priv \<Rightarrow>
          Some (0, conn\<lparr>privateData := None\<rparr>,
                [CapsUnref, XmloptUnref, EventStateFree]
                  @ (if WITH_XEN_INOTIFY h \<and> opened priv Inotify then [Closed Inotify] else [])
                  @ (if opened priv XM then [Closed XM] else [])
                  @ (if opened priv XS then [Closed XS] else [])
                  @ (if opened priv XenD then [Closed XenD] else [])
                  @ (if opened priv Hypervisor then [Closed Hypervisor] else [])
                  @ [FreeSaveDir, MutexDestroy, FreePriv]))"

text \<open>
  The calls that release what the private data holds besides its own memory, the lock
  and the save directory: the event state, the capabilities, the XML options.
\<close>

definition is_release :: "open_event \<Rightarrow> bool" where
  "is_release e = (e = EventStateFree \<or> e = CapsUnref \<or> e = XmloptUnref)"

text \<open>
  For the proofs: a step that starts with trace \<open>tr\<close> keeps it as part of its own
  trace and adds no releasing call.
\<close>

definition keeps_held :: "open_event list \<Rightarrow> open_result \<Rightarrow> bool" where
  "keeps_held tr res =
     (filter is_release (snd (snd res)) = filter is_release tr
      \<and> set tr \<subseteq> set (snd (snd res)))"














text \<open>
  A successful open leaves a session in which the save directory is set and the
  sub-drivers of \<open>op\<close> are activated.
\<close>

definition session_ready :: "hdr \<Rightarrow> (backend \<Rightarrow> bool) \<Rightarrow> open_result \<Rightarrow> bool" where
  "session_ready h op res =
     (fst res = VIR_DRV_OPEN_SUCCESS \<longrightarrow>
        (\<exists>p. privateData (fst (snd res)) = Some p
             \<and> saveDir p = Some (LOCALSTATEDIR h @ ''/lib/libvirt/xen/save'')
             \<and> (\<forall>b. op b \<longrightarrow> opened p b)))"

text \<open>
  For the concrete examples: an old XenD (version 2) on which every sub-driver opens,
  with the capabilities failing or not, and three connections.
\<close>

definition example_open_env :: "bool \<Rightarrow> open_env" where
  "example_open_env caps_built =
     \<lparr>xenUnifiedProbe_ret = True,
      virURIParse_ret = Some \<lparr>uri_scheme = Some ''xen'', uri_server = None, uri_path = Some ''/''\<rparr>,
      xenUnifiedXendProbe_ret = True,
      alloc_priv_ok = True, virMutexInit_ok = True, virDomainEventStateNew_ok = True,
      xenHypervisorOpen_ret = 0, xenDaemonOpen_ret = 0, xenDaemonOpen_version = 2,
      xenXMOpen_ret = 0, xenStoreOpen_ret = 0,
      xenDaemonNodeGetInfo_ret = Some (1, 4),
      xenHypervisorMakeCapabilities_ok = caps_built,
      xenDomainXMLConfInit_ok = True,
      xenInotifyOpen_ret = 0, strdup_saveDir_ok = True, virFileMakePath_ret = 0\<rparr>"

definition example_conn :: "string \<Rightarrow> string option \<Rightarrow> string \<Rightarrow> virConnect" where
  "example_conn s srv p =
     \<lparr>uri = Some \<lparr>uri_scheme = Some s, uri_server = srv, uri_path = Some p\<rparr>,
      privateData = None\<rparr>"

subsection \<open>PCI node devices\<close>

text \<open>
  A PCI address is (domain, bus, slot, function), four \<open>unsigned\<close> values. A parsed
  device description is its list of capabilities, of which only the PCI capability
  carries an address.
\<close>

type_synonym pci_addr = "32 word \<times> 32 word \<times> 32 word \<times> 32 word"

datatype virNodeDevCapsDef = VIR_NODE_DEV_CAP_PCI_DEV pci_addr | VIR_NODE_DEV_CAP_OTHER

text \<open>
  What the node-device functions take from outside: the device's XML description and
  its parse, the PCI library calls, the list of running domains from the XenStore
  sub-driver (\<open>xenStoreListDomains_ret maxids\<close> is \<open>None\<close> for a negative return and
  otherwise the ids written to the array, at most \<open>maxids\<close> of them), the allocations,
  and the XenStore lookup of a device in a domain's passthrough list.
\<close>

record nodedev_env =
  virNodeDeviceGetXMLDesc_ret :: "string option"
  virNodeDeviceDefParseString_ret :: "string \<Rightarrow> virNodeDevCapsDef list option"
  virPCIDeviceNew_ok :: bool
  virPCIDeviceDetach_ret :: int
  virPCIDeviceReattach_ret :: int
  xenStoreNumOfDomains_ret :: int
  alloc_ids_ok :: bool
  xenStoreListDomains_ret :: "int \<Rightarrow> int list option"
  asprintf_bdf_ok :: bool
  xenStoreDomainGetPCIID_ret :: "int \<Rightarrow> string \<Rightarrow> string option"

datatype pci_call =
    StoreGetPCIID int string
  | PCIDeviceDetach pci_addr
  | PCIDeviceReattach pci_addr

text \<open>The \<open>while (cap)\<close> loop of \<open>xenUnifiedNodeDeviceGetPciInfo\<close>.\<close>

fun find_pci_cap :: "virNodeDevCapsDef list \<Rightarrow> pci_addr option" where
  "find_pci_cap [] = None"
| "find_pci_cap (VIR_NODE_DEV_CAP_PCI_DEV a # cs) = Some a"
| "find_pci_cap (VIR_NODE_DEV_CAP_OTHER # cs) = find_pci_cap cs"

text \<open>The address, or \<open>None\<close> for the return value \<open>-1\<close>, and the error reported here.\<close>

definition xenUnifiedNodeDeviceGetPciInfo ::
  "nodedev_env \<Rightarrow> pci_addr option \<times> virErrorNumber option" where
  "xenUnifiedNodeDeviceGetPciInfo env =
     (case virNodeDeviceGetXMLDesc_ret env of
        None \<Rightarrow> (None, None)
      | Some xml \<Rightarrow>
          (case virNodeDeviceDefParseString_ret env xml of
             None \<Rightarrow> (None, None)
           | Some cs \<Rightarrow>
               (case find_pci_cap cs of
                  None \<Rightarrow> (None, Some VIR_ERR_INVALID_ARG)
                | Some a \<Rightarrow> (Some a, None))))"

definition xenUnifiedNodeDeviceDetachFlags ::
  "nodedev_env \<Rightarrow> string option \<Rightarrow> 32 word \<Rightarrow> int \<times> virErrorNumber option \<times> pci_call list" where
  "xenUnifiedNodeDeviceDetachFlags env driverName flags =
     (if \<not> virCheckFlags flags 0 then (- 1, Some VIR_ERR_INVALID_ARG, [])
      else
        (case xenUnifiedNodeDeviceGetPciInfo env of
           (None, e) \<Rightarrow> (- 1, e, [])
         | (Some a, e) \<Rightarrow>
             if \<not> virPCIDeviceNew_ok env then (- 1, None, [])
             else
               (case driverName of
                  Some n \<Rightarrow> (- 1, Some VIR_ERR_INVALID_ARG, [])
                | None \<Rightarrow>
                    if virPCIDeviceDetach_ret env < 0 then (- 1, None, [PCIDeviceDetach a])
                    else (0, None, [PCIDeviceDetach a]))))"

text \<open>
  The format \<open>%04x:%02x:%02x.%0x\<close>: lower-case hexadecimal, padded with zeros to four,
  two and two digits; the last conversion has no width.
\<close>

fun hex_digits :: "nat \<Rightarrow> string" where
  "hex_digits n =
     (if n < 16 then [''0123456789abcdef'' ! n]
      else hex_digits (n div 16) @ [''0123456789abcdef'' ! (n mod 16)])"

declare hex_digits.simps [simp del]

definition hex_padded :: "nat \<Rightarrow> 32 word \<Rightarrow> string" where
  "hex_padded width w =
     (let ds = hex_digits (unat w) in replicate (width - length ds) CHR ''0'' @ ds)"

definition pci_bdf :: "pci_addr \<Rightarrow> string" where
  "pci_bdf a =
     (case a of (domain, bus, slot, function) \<Rightarrow>
        hex_padded 4 domain @ '':'' @ hex_padded 2 bus @ '':'' @ hex_padded 2 slot
          @ ''.'' @ hex_padded 0 function)"

text \<open>
  The loop of \<open>xenUnifiedNodeDeviceAssignedDomainId\<close> over the running domains: the
  first domain in whose list the device is found is the result.
\<close>

fun assigned_scan :: "nodedev_env \<Rightarrow> string \<Rightarrow> int list \<Rightarrow> int \<times> pci_call list" where
  "assigned_scan env bdf [] = (- 1, [])"
| "assigned_scan env bdf (i # ids) =
     (case xenStoreDomainGetPCIID_ret env i bdf of
        None \<Rightarrow> (case assigned_scan env bdf ids of (r, t) \<Rightarrow> (r, StoreGetPCIID i bdf # t))
      | Some xref \<Rightarrow> (i, [StoreGetPCIID i bdf]))"

definition xenUnifiedNodeDeviceAssignedDomainId ::
  "nodedev_env \<Rightarrow> int \<times> virErrorNumber option \<times> pci_call list" where
  "xenUnifiedNodeDeviceAssignedDomainId env =
     (let numdomains = xenStoreNumOfDomains_ret env
      in if numdomains < 0 then (- 1, None, [])
         else if 0 < numdomains \<and> \<not> alloc_ids_ok env then (- 1, Some VIR_ERR_NO_MEMORY, [])
         else
           (case (if 0 < numdomains
                  then map_option (take (nat numdomains)) (xenStoreListDomains_ret env numdomains)
                  else Some []) of
              None \<Rightarrow> (- 1, None, [])
            | Some ids \<Rightarrow>
                (case xenUnifiedNodeDeviceGetPciInfo env of
                   (None, e) \<Rightarrow> (- 1, e, [])
                 | (Some a, e) \<Rightarrow>
                     if \<not> asprintf_bdf_ok env then (- 1, Some VIR_ERR_NO_MEMORY, [])
                     else (case assigned_scan env (pci_bdf a) ids of
                             (r, t) \<Rightarrow> (r, None, t)))))"

definition xenUnifiedNodeDeviceReAttach ::
  "nodedev_env \<Rightarrow> int \<times> virErrorNumber option \<times> pci_call list" where
  "xenUnifiedNodeDeviceReAttach env =
     (case xenUnifiedNodeDeviceGetPciInfo env of
        (None, e) \<Rightarrow> (- 1, e, [])
      | (Some a, e) \<Rightarrow>
          if \<not> virPCIDeviceNew_ok env then (- 1, None, [])
          else
            (case xenUnifiedNodeDeviceAssignedDomainId env of
               (domid, e', t) \<Rightarrow>
                 if 0 \<le> domid then (- 1, Some VIR_ERR_INTERNAL_ERROR, t)
                 else if virPCIDeviceReattach_ret env < 0
                 then (- 1, e', t @ [PCIDeviceReattach a])
                 else (0, e', t @ [PCIDeviceReattach a])))"

text \<open>
  For the concrete examples: the PCI device 0000:03:00.0, with domains 1 and 5 running
  and the device in the passthrough list of domain 5.
\<close>

definition example_nodedev_env :: nodedev_env where
  "example_nodedev_env =
     \<lparr>virNodeDeviceGetXMLDesc_ret = Some ''<device/>'',
      virNodeDeviceDefParseString_ret =
        (\<lambda>xml. Some [VIR_NODE_DEV_CAP_OTHER, VIR_NODE_DEV_CAP_PCI_DEV (0, 3, 0, 0)]),
      virPCIDeviceNew_ok = True,
      virPCIDeviceDetach_ret = 0,
      virPCIDeviceReattach_ret = 0,
      xenStoreNumOfDomains_ret = 2,
      alloc_ids_ok = True,
      xenStoreListDomains_ret = (\<lambda>maxids. Some [1, 5]),
      asprintf_bdf_ok = True,
      xenStoreDomainGetPCIID_ret =
        (\<lambda>i bdf. if i = 5 \<and> bdf = ''0000:03:00.0'' then Some ''0'' else None)\<rparr>"

subsection \<open>Connection features (xenUnifiedConnectSupportsFeature)\<close>

text \<open>
  The enumerators \<open>VIR_DRV_FEATURE_MIGRATION_V1\<close> and
  \<open>VIR_DRV_FEATURE_MIGRATION_DIRECT\<close> are declared in a header outside this file,
  so their values are parameters. The connection argument is unused by the C function
  (\<open>ATTRIBUTE_UNUSED\<close>); it is kept as an argument of arbitrary type.
\<close>

definition xenUnifiedConnectSupportsFeature :: "int \<Rightarrow> int \<Rightarrow> 'conn \<Rightarrow> int \<Rightarrow> int" where
  "xenUnifiedConnectSupportsFeature VIR_DRV_FEATURE_MIGRATION_V1
       VIR_DRV_FEATURE_MIGRATION_DIRECT conn feature =
     (if feature = VIR_DRV_FEATURE_MIGRATION_V1 then 1
      else if feature = VIR_DRV_FEATURE_MIGRATION_DIRECT then 1
      else 0)"

subsection \<open>The domain info list (xenUnifiedAddDomainInfo, xenUnifiedRemoveDomainInfo)\<close>

text \<open>
  \<open>xenUnifiedDomainInfo\<close> holds an id, a name and a uuid buffer of
  \<open>VIR_UUID_BUFLEN\<close> bytes. The list structure is an array \<open>doms\<close> with its
  \<open>count\<close>; the model is the list of entries in array order. \<open>STREQ\<close> is string
  equality and \<open>memcmp\<close> over the whole uuid buffer is equality of the byte lists.
\<close>

type_synonym uuid = "8 word list"

record xenUnifiedDomainInfo =
  info_id :: int
  info_name :: string
  info_uuid :: uuid

type_synonym xenUnifiedDomainInfoList = "xenUnifiedDomainInfo list"

text \<open>
  The three allocations of \<open>xenUnifiedAddDomainInfo\<close> (\<open>VIR_ALLOC(info)\<close>,
  \<open>strdup(name)\<close>, \<open>VIR_REALLOC_N(list->doms, n + 1)\<close>) can each fail; whether they
  succeed is given by the caller of the model.
\<close>

record add_allocs =
  alloc_info_ok :: bool
  strdup_name_ok :: bool
  realloc_doms_ok :: bool

text \<open>The first loop of \<open>xenUnifiedAddDomainInfo\<close>: is (name, uuid) already on the list?\<close>

fun already_tracked :: "xenUnifiedDomainInfoList \<Rightarrow> string \<Rightarrow> uuid \<Rightarrow> bool" where
  "already_tracked [] name uuid = False"
| "already_tracked (d # ds) name uuid =
     (if info_name d = name \<and> info_uuid d = uuid then True
      else already_tracked ds name uuid)"

text \<open>
  The result is the returned \<open>int\<close>, whether \<open>virReportOOMError\<close> was called, and
  the list afterwards. A duplicate returns \<open>-1\<close> without reporting an error; the
  \<open>memory_error\<close> exit returns \<open>-1\<close> after reporting one.
\<close>

definition xenUnifiedAddDomainInfo ::
  "add_allocs \<Rightarrow> xenUnifiedDomainInfoList \<Rightarrow> int \<Rightarrow> string \<Rightarrow> uuid
     \<Rightarrow> int \<times> bool \<times> xenUnifiedDomainInfoList" where
  "xenUnifiedAddDomainInfo m list i name uuid =
     (if already_tracked list name uuid then (- 1, False, list)
      else if \<not> alloc_info_ok m then (- 1, True, list)
      else if \<not> strdup_name_ok m then (- 1, True, list)
      else if \<not> realloc_doms_ok m then (- 1, True, list)
      else (0, False, list @ [\<lparr>info_id = i, info_name = name, info_uuid = uuid\<rparr>]))"

text \<open>
  \<open>xenUnifiedRemoveDomainInfo\<close> scans from the front; at the first entry that matches
  id, name and uuid it frees the entry, moves the tail down by one (\<open>memmove\<close>) and
  decrements \<open>count\<close>. A failing shrink of the array is ignored by the code.
\<close>

fun xenUnifiedRemoveDomainInfo ::
  "xenUnifiedDomainInfoList \<Rightarrow> int \<Rightarrow> string \<Rightarrow> uuid \<Rightarrow> int \<times> xenUnifiedDomainInfoList" where
  "xenUnifiedRemoveDomainInfo [] i name uuid = (- 1, [])"
| "xenUnifiedRemoveDomainInfo (d # ds) i name uuid =
     (if info_id d = i \<and> info_name d = name \<and> info_uuid d = uuid then (0, ds)
      else (case xenUnifiedRemoveDomainInfo ds i name uuid of
              (r, ds') \<Rightarrow> (r, d # ds')))"

text \<open>Sequences of calls on one list, starting from the empty list.\<close>

datatype tracker_op =
    Add add_allocs int string uuid
  | Remove int string uuid

fun tracker_step :: "xenUnifiedDomainInfoList \<Rightarrow> tracker_op \<Rightarrow> xenUnifiedDomainInfoList" where
  "tracker_step l (Add m i name uuid) = snd (snd (xenUnifiedAddDomainInfo m l i name uuid))"
| "tracker_step l (Remove i name uuid) = snd (xenUnifiedRemoveDomainInfo l i name uuid)"

definition tracker_run :: "tracker_op list \<Rightarrow> xenUnifiedDomainInfoList" where
  "tracker_run ops = foldl tracker_step [] ops"

definition name_uuid_unique :: "xenUnifiedDomainInfoList \<Rightarrow> bool" where
  "name_uuid_unique l = distinct (map (\<lambda>d. (info_name d, info_uuid d)) l)"

definition allocs_ok :: add_allocs where
  "allocs_ok = \<lparr>alloc_info_ok = True, strdup_name_ok = True, realloc_doms_ok = True\<rparr>"


section \<open>Theorems\<close>

subsection \<open>Connection features\<close>

text \<open>
  C10. The supports-feature query answers 1 exactly for the migration-v1 and
  direct-migration features and 0 for every other feature identifier. The answer does
  not depend on the connection it is asked of (any two connections get the same answer),
  and the function has no access to any sub-driver: its only inputs are the feature
  identifier and the two enumerator values.
\<close>

theorem supports_feature_pure:
  "(xenUnifiedConnectSupportsFeature v1 direct conn feature = 1)
      = (feature = v1 \<or> feature = direct)
   \<and> (xenUnifiedConnectSupportsFeature v1 direct conn feature = 0)
      = (feature \<noteq> v1 \<and> feature \<noteq> direct)
   \<and> xenUnifiedConnectSupportsFeature v1 direct conn feature
      = xenUnifiedConnectSupportsFeature v1 direct conn' feature"
  by (simp add: xenUnifiedConnectSupportsFeature_def)

subsection \<open>Domain info list\<close>

lemma already_tracked_iff:
  "already_tracked l name uuid = (\<exists>d \<in> set l. info_name d = name \<and> info_uuid d = uuid)"
  by (induction l) auto

lemma already_tracked_key:
  "already_tracked l name uuid = ((name, uuid) \<in> set (map (\<lambda>d. (info_name d, info_uuid d)) l))"
  by (induction l) auto

lemma add_keeps_unique:
  "name_uuid_unique l \<Longrightarrow> name_uuid_unique (snd (snd (xenUnifiedAddDomainInfo m l i name uuid)))"
  by (auto simp: xenUnifiedAddDomainInfo_def name_uuid_unique_def already_tracked_key)

lemma remove_keys_subset:
  "xenUnifiedRemoveDomainInfo l i name uuid = (r, l') \<Longrightarrow> set l' \<subseteq> set l"
  by (induction l arbitrary: r l') (auto split: if_splits prod.splits)

lemma remove_keeps_unique:
  "name_uuid_unique l \<Longrightarrow> xenUnifiedRemoveDomainInfo l i name uuid = (r, l')
     \<Longrightarrow> name_uuid_unique l'"
proof (induction l arbitrary: r l')
  case Nil
  then show ?case by (simp add: name_uuid_unique_def)
next
  case (Cons d ds)
  show ?case
  proof (cases "info_id d = i \<and> info_name d = name \<and> info_uuid d = uuid")
    case True
    with Cons.prems show ?thesis by (auto simp: name_uuid_unique_def)
  next
    case False
    obtain r0 ds' where rec: "xenUnifiedRemoveDomainInfo ds i name uuid = (r0, ds')"
      by (cases "xenUnifiedRemoveDomainInfo ds i name uuid")
    with False Cons.prems have l': "l' = d # ds'" by auto
    from Cons.prems have uds: "name_uuid_unique ds"
      and fresh: "(info_name d, info_uuid d) \<notin> set (map (\<lambda>d. (info_name d, info_uuid d)) ds)"
      by (auto simp: name_uuid_unique_def)
    from Cons.IH [OF uds rec] have "name_uuid_unique ds'" .
    moreover from remove_keys_subset [OF rec] fresh
    have "(info_name d, info_uuid d) \<notin> set (map (\<lambda>d. (info_name d, info_uuid d)) ds')"
      by auto
    ultimately show ?thesis using l' by (simp add: name_uuid_unique_def)
  qed
qed

lemma remove_success_tracked:
  "xenUnifiedRemoveDomainInfo l i name uuid = (0, l') \<Longrightarrow> already_tracked l name uuid"
  by (induction l arbitrary: l') (auto split: if_splits prod.splits)

lemma remove_success_untracks:
  "name_uuid_unique l \<Longrightarrow> xenUnifiedRemoveDomainInfo l i name uuid = (0, l')
     \<Longrightarrow> \<not> already_tracked l' name uuid"
proof (induction l arbitrary: l')
  case Nil
  then show ?case by simp
next
  case (Cons d ds)
  show ?case
  proof (cases "info_id d = i \<and> info_name d = name \<and> info_uuid d = uuid")
    case True
    with Cons.prems show ?thesis
      by (auto simp: name_uuid_unique_def already_tracked_key)
  next
    case False
    obtain r0 ds' where rec: "xenUnifiedRemoveDomainInfo ds i name uuid = (r0, ds')"
      by (cases "xenUnifiedRemoveDomainInfo ds i name uuid")
    with False Cons.prems have l': "l' = d # ds'" and r0: "r0 = 0" by auto
    from Cons.prems have uds: "name_uuid_unique ds"
      and fresh: "(info_name d, info_uuid d) \<notin> set (map (\<lambda>d. (info_name d, info_uuid d)) ds)"
      by (auto simp: name_uuid_unique_def)
    from Cons.IH [OF uds] rec r0 have nt: "\<not> already_tracked ds' name uuid" by simp
    have "\<not> (info_name d = name \<and> info_uuid d = uuid)"
    proof
      assume eq: "info_name d = name \<and> info_uuid d = uuid"
      from rec r0 have "already_tracked ds name uuid"
        by (simp add: remove_success_tracked)
      with eq fresh show False by (simp add: already_tracked_key)
    qed
    with nt l' show ?thesis by auto
  qed
qed

lemma tracker_foldl_unique:
  "name_uuid_unique l \<Longrightarrow> name_uuid_unique (foldl tracker_step l ops)"
proof (induction ops arbitrary: l)
  case Nil
  then show ?case by simp
next
  case (Cons a ops)
  have "name_uuid_unique (tracker_step l a)"
  proof (cases a)
    case (Add m i name uuid)
    with Cons.prems show ?thesis by (simp add: add_keeps_unique)
  next
    case (Remove i name uuid)
    with Cons.prems show ?thesis
      by (cases "xenUnifiedRemoveDomainInfo l i name uuid") (auto dest: remove_keeps_unique)
  qed
  with Cons.IH show ?case by simp
qed

lemma tracker_run_unique: "name_uuid_unique (tracker_run ops)"
  unfolding tracker_run_def
  by (rule tracker_foldl_unique) (simp add: name_uuid_unique_def)

lemma remove_returns:
  "(fst (xenUnifiedRemoveDomainInfo l i name uuid) = 0)
     = (\<exists>d \<in> set l. info_id d = i \<and> info_name d = name \<and> info_uuid d = uuid)"
  by (induction l) (auto split: prod.splits)

lemma remove_compacts:
  "snd (xenUnifiedRemoveDomainInfo l i name uuid)
     = takeWhile (\<lambda>d. \<not> (info_id d = i \<and> info_name d = name \<and> info_uuid d = uuid)) l
       @ tl (dropWhile (\<lambda>d. \<not> (info_id d = i \<and> info_name d = name \<and> info_uuid d = uuid)) l)"
  by (induction l) (auto split: prod.splits)

lemma remove_unlisted:
  "\<not> (\<exists>d \<in> set l. info_id d = i \<and> info_name d = name \<and> info_uuid d = uuid)
     \<Longrightarrow> xenUnifiedRemoveDomainInfo l i name uuid = (- 1, l)"
  by (induction l) (auto split: prod.splits)

lemma remove_length:
  "fst (xenUnifiedRemoveDomainInfo l i name uuid) = 0
     \<Longrightarrow> Suc (length (snd (xenUnifiedRemoveDomainInfo l i name uuid))) = length l"
  by (induction l) (auto split: prod.splits if_splits)

lemma remove_listed_entry:
  assumes u: "name_uuid_unique l"
    and m: "\<lparr>info_id = i, info_name = name, info_uuid = uuid\<rparr> \<in> set l"
  shows "\<exists>l'. xenUnifiedRemoveDomainInfo l i name uuid = (0, l')
             \<and> (\<forall>d \<in> set l'. \<not> (info_name d = name \<and> info_uuid d = uuid))
             \<and> Suc (length l') = length l"
proof -
  obtain r l' where res: "xenUnifiedRemoveDomainInfo l i name uuid = (r, l')"
    by (cases "xenUnifiedRemoveDomainInfo l i name uuid")
  from m have "\<exists>d \<in> set l. info_id d = i \<and> info_name d = name \<and> info_uuid d = uuid"
    by force
  with remove_returns [of l i name uuid] res have r: "r = 0" by simp
  with res have res0: "xenUnifiedRemoveDomainInfo l i name uuid = (0, l')" by simp
  from remove_success_untracks [OF u res0]
  have nt: "\<forall>d \<in> set l'. \<not> (info_name d = name \<and> info_uuid d = uuid)"
    by (simp add: already_tracked_iff)
  from remove_length [of l i name uuid] res0 have "Suc (length l') = length l" by simp
  with res0 nt show ?thesis by blast
qed

text \<open>
  C7. On any list, \<open>xenUnifiedAddDomainInfo\<close> rejects the entry as a duplicate
  (returns \<open>-1\<close> without reporting an error, list unchanged) exactly when some entry
  already has the same name and uuid. \<open>xenUnifiedRemoveDomainInfo\<close> returns 0 exactly
  when some entry matches id, name and uuid; when none does it returns \<open>-1\<close> and
  leaves the list as it is; and in every case the list afterwards is the list before
  without its first matching entry, the other entries in their order. On every list
  produced from the empty list by a sequence of add and remove calls the (name, uuid)
  pairs are pairwise distinct; once a remove of (id, name, uuid) has succeeded there, an
  add with the same name and uuid (under any id, allocations succeeding) succeeds and
  appends the entry; and a remove of a listed (id, name, uuid) does succeed there: it
  returns 0, the list is one entry shorter, no entry with that name and uuid is left,
  and the following add succeeds.
\<close>

theorem tracker_name_uuid_unique:
  "((xenUnifiedAddDomainInfo m l j name uuid = (- 1, False, l))
      = (\<exists>d \<in> set l. info_name d = name \<and> info_uuid d = uuid))
   \<and> (xenUnifiedRemoveDomainInfo (tracker_run ops) i name uuid = (0, l') \<longrightarrow>
        xenUnifiedAddDomainInfo allocs_ok l' i' name uuid
          = (0, False, l' @ [\<lparr>info_id = i', info_name = name, info_uuid = uuid\<rparr>]))
   \<and> name_uuid_unique (tracker_run ops)
   \<and> (fst (xenUnifiedRemoveDomainInfo l i name uuid) = 0)
       = (\<exists>d \<in> set l. info_id d = i \<and> info_name d = name \<and> info_uuid d = uuid)
   \<and> (\<not> (\<exists>d \<in> set l. info_id d = i \<and> info_name d = name \<and> info_uuid d = uuid)
        \<longrightarrow> xenUnifiedRemoveDomainInfo l i name uuid = (- 1, l))
   \<and> snd (xenUnifiedRemoveDomainInfo l i name uuid)
       = takeWhile (\<lambda>d. \<not> (info_id d = i \<and> info_name d = name \<and> info_uuid d = uuid)) l
         @ tl (dropWhile (\<lambda>d. \<not> (info_id d = i \<and> info_name d = name \<and> info_uuid d = uuid)) l)
   \<and> (\<lparr>info_id = i, info_name = name, info_uuid = uuid\<rparr> \<in> set (tracker_run ops) \<longrightarrow>
        (\<exists>l''. xenUnifiedRemoveDomainInfo (tracker_run ops) i name uuid = (0, l'')
              \<and> Suc (length l'') = length (tracker_run ops)
              \<and> (\<forall>d \<in> set l''. \<not> (info_name d = name \<and> info_uuid d = uuid))
              \<and> xenUnifiedAddDomainInfo allocs_ok l'' i' name uuid
                  = (0, False, l'' @ [\<lparr>info_id = i', info_name = name, info_uuid = uuid\<rparr>])))"
proof (intro conjI impI)
  show "(xenUnifiedAddDomainInfo m l j name uuid = (- 1, False, l))
      = (\<exists>d \<in> set l. info_name d = name \<and> info_uuid d = uuid)"
    by (simp add: xenUnifiedAddDomainInfo_def already_tracked_iff)
next
  assume "xenUnifiedRemoveDomainInfo (tracker_run ops) i name uuid = (0, l')"
  with tracker_run_unique have "\<not> already_tracked l' name uuid"
    by (rule remove_success_untracks)
  then show "xenUnifiedAddDomainInfo allocs_ok l' i' name uuid
          = (0, False, l' @ [\<lparr>info_id = i', info_name = name, info_uuid = uuid\<rparr>])"
    by (simp add: xenUnifiedAddDomainInfo_def allocs_ok_def)
next
  show "name_uuid_unique (tracker_run ops)" by (rule tracker_run_unique)
next
  show "(fst (xenUnifiedRemoveDomainInfo l i name uuid) = 0)
       = (\<exists>d \<in> set l. info_id d = i \<and> info_name d = name \<and> info_uuid d = uuid)"
    by (rule remove_returns)
next
  assume "\<not> (\<exists>d \<in> set l. info_id d = i \<and> info_name d = name \<and> info_uuid d = uuid)"
  then show "xenUnifiedRemoveDomainInfo l i name uuid = (- 1, l)"
    by (rule remove_unlisted)
next
  show "snd (xenUnifiedRemoveDomainInfo l i name uuid)
       = takeWhile (\<lambda>d. \<not> (info_id d = i \<and> info_name d = name \<and> info_uuid d = uuid)) l
         @ tl (dropWhile (\<lambda>d. \<not> (info_id d = i \<and> info_name d = name \<and> info_uuid d = uuid)) l)"
    by (rule remove_compacts)
next
  assume "\<lparr>info_id = i, info_name = name, info_uuid = uuid\<rparr> \<in> set (tracker_run ops)"
  from remove_listed_entry [OF tracker_run_unique this]
  obtain l'' where r: "xenUnifiedRemoveDomainInfo (tracker_run ops) i name uuid = (0, l'')"
    and len: "Suc (length l'') = length (tracker_run ops)"
    and nt: "\<forall>d \<in> set l''. \<not> (info_name d = name \<and> info_uuid d = uuid)"
    by blast
  from nt have "\<not> already_tracked l'' name uuid" by (simp add: already_tracked_iff)
  then have "xenUnifiedAddDomainInfo allocs_ok l'' i' name uuid
          = (0, False, l'' @ [\<lparr>info_id = i', info_name = name, info_uuid = uuid\<rparr>])"
    by (simp add: xenUnifiedAddDomainInfo_def allocs_ok_def)
  with r len nt
  show "\<exists>l''. xenUnifiedRemoveDomainInfo (tracker_run ops) i name uuid = (0, l'')
              \<and> Suc (length l'') = length (tracker_run ops)
              \<and> (\<forall>d \<in> set l''. \<not> (info_name d = name \<and> info_uuid d = uuid))
              \<and> xenUnifiedAddDomainInfo allocs_ok l'' i' name uuid
                  = (0, False, l'' @ [\<lparr>info_id = i', info_name = name, info_uuid = uuid\<rparr>])"
    by blast
qed

lemma example_tracker_run:
  "tracker_run [Add allocs_ok 4 ''vm0'' [1, 1], Add allocs_ok 1 ''vm1'' [7, 9],
                Add allocs_ok 6 ''vm2'' [3, 3]]
     = [\<lparr>info_id = 4, info_name = ''vm0'', info_uuid = [1, 1]\<rparr>,
        \<lparr>info_id = 1, info_name = ''vm1'', info_uuid = [7, 9]\<rparr>,
        \<lparr>info_id = 6, info_name = ''vm2'', info_uuid = [3, 3]\<rparr>]"
  by (simp add: tracker_run_def xenUnifiedAddDomainInfo_def allocs_ok_def)

text \<open>
  The sequence of the specification on a list of three domains: while \<open>vm1\<close> is listed
  under id 1 a second add is a duplicate; removing it takes the middle entry out and
  keeps the other two; it can then be added under id 2.
\<close>

theorem tracker_name_uuid_unique_witness:
  "xenUnifiedAddDomainInfo allocs_ok
       [\<lparr>info_id = 1, info_name = ''vm1'', info_uuid = [7, 9]\<rparr>] 2 ''vm1'' [7, 9]
     = (- 1, False, [\<lparr>info_id = 1, info_name = ''vm1'', info_uuid = [7, 9]\<rparr>])
   \<and> xenUnifiedRemoveDomainInfo
       (tracker_run [Add allocs_ok 4 ''vm0'' [1, 1], Add allocs_ok 1 ''vm1'' [7, 9],
                     Add allocs_ok 6 ''vm2'' [3, 3]]) 1 ''vm1'' [7, 9]
     = (0, [\<lparr>info_id = 4, info_name = ''vm0'', info_uuid = [1, 1]\<rparr>,
            \<lparr>info_id = 6, info_name = ''vm2'', info_uuid = [3, 3]\<rparr>])
   \<and> xenUnifiedAddDomainInfo allocs_ok
       [\<lparr>info_id = 4, info_name = ''vm0'', info_uuid = [1, 1]\<rparr>,
        \<lparr>info_id = 6, info_name = ''vm2'', info_uuid = [3, 3]\<rparr>] 2 ''vm1'' [7, 9]
     = (0, False, [\<lparr>info_id = 4, info_name = ''vm0'', info_uuid = [1, 1]\<rparr>,
                   \<lparr>info_id = 6, info_name = ''vm2'', info_uuid = [3, 3]\<rparr>,
                   \<lparr>info_id = 2, info_name = ''vm1'', info_uuid = [7, 9]\<rparr>])"
proof -
  let ?ops = "[Add allocs_ok 4 ''vm0'' [1, 1], Add allocs_ok 1 ''vm1'' [7, 9],
               Add allocs_ok 6 ''vm2'' [3, 3]]"
  let ?rest = "[\<lparr>info_id = 4, info_name = ''vm0'', info_uuid = [1, 1 :: 8 word]\<rparr>,
                \<lparr>info_id = 6, info_name = ''vm2'', info_uuid = [3, 3]\<rparr>]"
  have rem: "xenUnifiedRemoveDomainInfo (tracker_run ?ops) 1 ''vm1'' [7, 9] = (0, ?rest)"
    by (simp add: example_tracker_run)
  have listed: "\<lparr>info_id = 1, info_name = ''vm1'', info_uuid = [7, 9]\<rparr> \<in> set (tracker_run ?ops)"
    by (simp add: example_tracker_run)
  have dup: "\<exists>d \<in> set [\<lparr>info_id = 1, info_name = ''vm1'', info_uuid = [7, 9 :: 8 word]\<rparr>].
               info_name d = ''vm1'' \<and> info_uuid d = [7, 9]"
    by simp
  from tracker_name_uuid_unique
         [where m = allocs_ok
            and l = "[\<lparr>info_id = 1, info_name = ''vm1'', info_uuid = [7, 9]\<rparr>]"
            and j = 2 and name = "''vm1''" and uuid = "[7, 9]" and ops = ?ops and i = 1
            and l' = ?rest and i' = 2]
       rem listed dup
  show ?thesis by simp
qed

subsection \<open>VCPU counts\<close>

lemma take_bit_16_self: "(take_bit 16 (n :: 32 word) = n) = (unat n < 2 ^ 16)"
proof -
  have "(take_bit 16 n = n) = (unat (take_bit 16 n) = unat n)"
    by (simp add: word_unat_eq_iff)
  also have "\<dots> = (take_bit 16 (unat n) = unat n)"
    by (simp add: unsigned_take_bit_eq)
  also have "\<dots> = (unat n < 2 ^ 16)"
    by (simp add: take_bit_nat_eq_self_iff)
  finally show ?thesis .
qed

lemma ushort_cast_neq: "(ucast (ucast (n :: 32 word) :: 16 word) \<noteq> n) = (65535 < unat n)"
proof -
  have eq: "(ucast (ucast n :: 16 word) :: 32 word) = take_bit 16 n"
    by (simp add: unsigned_ucast_eq)
  have "(ucast (ucast n :: 16 word) \<noteq> n) = (take_bit 16 n \<noteq> n)"
    by (simp only: eq)
  also have "\<dots> = (\<not> unat n < 2 ^ 16)"
    by (simp only: take_bit_16_self)
  also have "\<dots> = (Suc 65535 \<le> unat n)"
    by (simp add: not_less)
  also have "\<dots> = (65535 < unat n)"
    by (rule Suc_le_eq)
  finally show ?thesis .
qed

lemma virCheckFlags_none: "virCheckFlags flags 0 = (flags = 0)"
  by (simp add: virCheckFlags_def)

text \<open>
  C6. A call of \<open>xenUnifiedDomainSetVcpusFlags\<close> whose flags have neither the live
  nor the config bit, or have both the maximum and the live bit, or whose count is
  zero or above 65535 (outside \<open>unsigned short\<close>), returns \<open>-1\<close> with an
  invalid-argument error and calls no sub-driver, whatever the session and whatever
  the sub-drivers would answer.
\<close>

theorem setvcpus_validation:
  "flags AND (VIR_DOMAIN_VCPU_LIVE h OR VIR_DOMAIN_VCPU_CONFIG h) = 0
     \<or> flags AND (VIR_DOMAIN_VCPU_MAXIMUM h OR VIR_DOMAIN_VCPU_LIVE h)
          = (VIR_DOMAIN_VCPU_MAXIMUM h OR VIR_DOMAIN_VCPU_LIVE h)
     \<or> nvcpus = 0 \<or> 65535 < unat nvcpus
   \<Longrightarrow> xenUnifiedDomainSetVcpusFlags h sub priv nvcpus flags
         = (- 1, Some VIR_ERR_INVALID_ARG, [])"
  unfolding xenUnifiedDomainSetVcpusFlags_def
  by (auto simp: ushort_cast_neq)

text \<open>
  With live = 1, config = 2, maximum = 4: flags 4 (maximum alone), flags 5 (maximum
  with live), a count of 0 and a count of 65536 are all rejected.
\<close>

theorem setvcpus_validation_witness:
  "xenUnifiedDomainSetVcpusFlags example_hdr all_succeed (example_priv 3) 1 4
     = (- 1, Some VIR_ERR_INVALID_ARG, [])
 \<and> xenUnifiedDomainSetVcpusFlags example_hdr all_succeed (example_priv 3) 1 5
     = (- 1, Some VIR_ERR_INVALID_ARG, [])
 \<and> xenUnifiedDomainSetVcpusFlags example_hdr all_succeed (example_priv 3) 0 1
     = (- 1, Some VIR_ERR_INVALID_ARG, [])
 \<and> xenUnifiedDomainSetVcpusFlags example_hdr all_succeed (example_priv 3) 65536 1
     = (- 1, Some VIR_ERR_INVALID_ARG, [])"
  using setvcpus_validation [of 4 example_hdr 1 all_succeed "example_priv 3"]
        setvcpus_validation [of 5 example_hdr 1 all_succeed "example_priv 3"]
        setvcpus_validation [of 1 example_hdr 0 all_succeed "example_priv 3"]
        setvcpus_validation [of 1 example_hdr 65536 all_succeed "example_priv 3"]
  by (simp add: example_hdr_def)

lemma set_is_fallback:
  "xenUnifiedDomainSetVcpusFlags h sub priv nvcpus flags = (r, e, tr) \<Longrightarrow> tr \<noteq> [] \<Longrightarrow>
     vcpus_fallback sub priv (flags = VIR_DOMAIN_VCPU_LIVE h) = (r, e, tr)"
  unfolding xenUnifiedDomainSetVcpusFlags_def vcpus_fallback_def
  by (simp split: if_splits)

lemma get_is_fallback:
  "xenUnifiedDomainGetVcpusFlags h sub priv flags = (r, e, tr) \<Longrightarrow> tr \<noteq> [] \<Longrightarrow>
     vcpus_fallback sub priv (flags = (VIR_DOMAIN_VCPU_CONFIG h OR VIR_DOMAIN_VCPU_MAXIMUM h))
       = (r, e, tr)"
  unfolding xenUnifiedDomainGetVcpusFlags_def vcpus_fallback_def
  by (simp split: if_splits)

lemma fallback_short_circuit:
  assumes "vcpus_fallback sub priv direct = (r, e, tr)"
  shows "(\<forall>i j. i < j \<and> j < length tr \<and> sub (tr ! i) = - 2 \<and> 0 \<le> sub (tr ! j)
            \<longrightarrow> r = sub (tr ! j) \<and> Suc j = length tr \<and> e = None)
      \<and> (opened priv XenD \<and> opened priv XM \<and> sub XenD = - 2 \<and> 0 \<le> sub XM
            \<longrightarrow> r = sub XM \<and> e = None \<and> tr = [XenD, XM])
      \<and> (r = - 2 \<longrightarrow> tr \<noteq> [] \<and> last tr = Hypervisor \<and> sub Hypervisor = - 2)"
proof (cases "opened priv XenD")
  case xd: True
  show ?thesis
  proof (cases "opened priv XM")
    case True
    with xd assms show ?thesis
      unfolding vcpus_fallback_def Let_def
      by (auto split: if_splits simp: nth_Cons' less_Suc_eq)
  next
    case False
    with xd assms show ?thesis
      unfolding vcpus_fallback_def Let_def
      by (auto split: if_splits simp: nth_Cons' less_Suc_eq)
  qed
next
  case xd: False
  show ?thesis
  proof (cases "opened priv XM")
    case True
    with xd assms show ?thesis
      unfolding vcpus_fallback_def Let_def
      by (auto split: if_splits simp: nth_Cons' less_Suc_eq)
  next
    case False
    with xd assms show ?thesis
      unfolding vcpus_fallback_def Let_def
      by (auto split: if_splits simp: nth_Cons' less_Suc_eq)
  qed
qed






text \<open>
  The same in terms of the calls made: in whatever the dispatchers return, a call that
  answered \<open>-2\<close> followed by a call that succeeded makes the latter the last call and
  its value the result.
\<close>

lemma soft_decline_trace:
  assumes "res = xenUnifiedDomainSetVcpusFlags h sub priv nvcpus flags
           \<or> res = xenUnifiedDomainGetVcpusFlags h sub priv flags"
    and "res = (r, e, tr)"
  shows "\<forall>i j. i < j \<and> j < length tr \<and> sub (tr ! i) = - 2 \<and> 0 \<le> sub (tr ! j)
            \<longrightarrow> r = sub (tr ! j) \<and> Suc j = length tr \<and> e = None \<and> r \<noteq> - 2"
proof (cases "tr = []")
  case True
  then show ?thesis by simp
next
  case False
  from assms False obtain direct where "vcpus_fallback sub priv direct = (r, e, tr)"
    using set_is_fallback get_is_fallback by metis
  from fallback_short_circuit [OF this] show ?thesis by fastforce
qed




subsection \<open>Routing by the XenD configuration version\<close>












subsection \<open>Scheduler parameters\<close>

lemma get_sched_loop_subseq: "subseq (snd (get_sched_loop structs priv bs)) bs"
  by (induction bs) (auto split: option.splits prod.splits)

lemma set_sched_loop_subseq: "subseq (snd (set_sched_loop structs priv bs)) bs"
  by (induction bs) (auto split: option.splits prod.splits)

lemma get_sched_loop_Cons:
  "get_sched_loop structs priv (b # bs) =
     (if \<not> opened priv b then get_sched_loop structs priv bs
      else if drivers structs b = None then (None, [])
      else (case get_handler structs b of
              None \<Rightarrow> get_sched_loop structs priv bs
            | Some ret \<Rightarrow> if ret = 0 then (Some 0, [b])
                else (fst (get_sched_loop structs priv bs), b # snd (get_sched_loop structs priv bs))))"
  by (simp add: get_handler_def split: option.splits prod.splits)

lemma loop_post_skip:
  "loop_post priv h bs res \<Longrightarrow> \<not> candidate priv h b \<Longrightarrow> loop_post priv h (b # bs) res"
  by (auto simp: loop_post_def)

lemma loop_post_crash: "loop_post priv h bs (None, [])"
  by (simp add: loop_post_def)

lemma loop_post_hit:
  "h b = Some 0 \<Longrightarrow> opened priv b \<Longrightarrow> loop_post priv h (b # bs) (Some 0, [b])"
  by (auto simp: loop_post_def candidate_def)

lemma loop_post_miss:
  "h b = Some ret \<Longrightarrow> ret \<noteq> 0 \<Longrightarrow> opened priv b \<Longrightarrow> loop_post priv h bs res
     \<Longrightarrow> loop_post priv h (b # bs) (fst res, b # snd res)"
  by (auto simp: loop_post_def candidate_def)

lemma get_sched_loop_post:
  "loop_post priv (get_handler structs) bs (get_sched_loop structs priv bs)"
proof (induction bs)
  case Nil
  show ?case by (simp add: loop_post_def)
next
  case (Cons b bs)
  let ?rec = "get_sched_loop structs priv bs"
  let ?h = "get_handler structs"
  from Cons.IH have ih: "loop_post priv ?h bs ?rec" .
  show ?case
  proof (cases "opened priv b")
    case False
    then have eq: "get_sched_loop structs priv (b # bs) = ?rec"
      by (simp add: get_sched_loop_Cons del: get_sched_loop.simps)
    from False have "\<not> candidate priv ?h b" by (simp add: candidate_def)
    with ih show ?thesis unfolding eq by (rule loop_post_skip)
  next
    case op: True
    show ?thesis
    proof (cases "drivers structs b")
      case None
      with op have eq: "get_sched_loop structs priv (b # bs) = (None, [])"
        by (simp add: get_sched_loop_Cons del: get_sched_loop.simps)
      show ?thesis unfolding eq by (rule loop_post_crash)
    next
      case (Some drv)
      show ?thesis
      proof (cases "?h b")
        case None
        with op Some have eq: "get_sched_loop structs priv (b # bs) = ?rec"
          by (simp add: get_sched_loop_Cons del: get_sched_loop.simps)
        from None have "\<not> candidate priv ?h b" by (simp add: candidate_def)
        with ih show ?thesis unfolding eq by (rule loop_post_skip)
      next
        case hs: (Some ret)
        show ?thesis
        proof (cases "ret = 0")
          case True
          with op Some hs have eq: "get_sched_loop structs priv (b # bs) = (Some 0, [b])"
            by (simp add: get_sched_loop_Cons del: get_sched_loop.simps)
          from hs True op show ?thesis unfolding eq by (simp add: loop_post_hit)
        next
          case False
          with op Some hs
          have eq: "get_sched_loop structs priv (b # bs) = (fst ?rec, b # snd ?rec)"
            by (simp add: get_sched_loop_Cons del: get_sched_loop.simps)
          from hs False op ih show ?thesis unfolding eq by (rule loop_post_miss)
        qed
      qed
    qed
  qed
qed

lemma set_sched_loop_Cons:
  "set_sched_loop structs priv (b # bs) =
     (if \<not> opened priv b then set_sched_loop structs priv bs
      else if drivers structs b = None then (None, [])
      else (case set_handler structs b of
              None \<Rightarrow> set_sched_loop structs priv bs
            | Some ret \<Rightarrow> if ret = 0 then (Some 0, [b])
                else (fst (set_sched_loop structs priv bs), b # snd (set_sched_loop structs priv bs))))"
  by (simp add: set_handler_def split: option.splits prod.splits)

lemma set_sched_loop_post:
  "loop_post priv (set_handler structs) bs (set_sched_loop structs priv bs)"
proof (induction bs)
  case Nil
  show ?case by (simp add: loop_post_def)
next
  case (Cons b bs)
  let ?rec = "set_sched_loop structs priv bs"
  let ?h = "set_handler structs"
  from Cons.IH have ih: "loop_post priv ?h bs ?rec" .
  show ?case
  proof (cases "opened priv b")
    case False
    then have eq: "set_sched_loop structs priv (b # bs) = ?rec"
      by (simp add: set_sched_loop_Cons del: set_sched_loop.simps)
    from False have "\<not> candidate priv ?h b" by (simp add: candidate_def)
    with ih show ?thesis unfolding eq by (rule loop_post_skip)
  next
    case op: True
    show ?thesis
    proof (cases "drivers structs b")
      case None
      with op have eq: "set_sched_loop structs priv (b # bs) = (None, [])"
        by (simp add: set_sched_loop_Cons del: set_sched_loop.simps)
      show ?thesis unfolding eq by (rule loop_post_crash)
    next
      case (Some drv)
      show ?thesis
      proof (cases "?h b")
        case None
        with op Some have eq: "set_sched_loop structs priv (b # bs) = ?rec"
          by (simp add: set_sched_loop_Cons del: set_sched_loop.simps)
        from None have "\<not> candidate priv ?h b" by (simp add: candidate_def)
        with ih show ?thesis unfolding eq by (rule loop_post_skip)
      next
        case hs: (Some ret)
        show ?thesis
        proof (cases "ret = 0")
          case True
          with op Some hs have eq: "set_sched_loop structs priv (b # bs) = (Some 0, [b])"
            by (simp add: set_sched_loop_Cons del: set_sched_loop.simps)
          from hs True op show ?thesis unfolding eq by (simp add: loop_post_hit)
        next
          case False
          with op Some hs
          have eq: "set_sched_loop structs priv (b # bs) = (fst ?rec, b # snd ?rec)"
            by (simp add: set_sched_loop_Cons del: set_sched_loop.simps)
          from hs False op ih show ?thesis unfolding eq by (rule loop_post_miss)
        qed
      qed
    qed
  qed
qed


text \<open>
  The direction of the two loops: with no flags, the getter's calls are a subsequence of
  the slot order and the setter's a subsequence of the reversed slot order, whatever
  the session. Each loop stops at the first call that returns 0 and then returns 0; as
  long as it does not run into an activated slot without table entry, its calls are the
  candidates (activated slots with the handler) in its own order up to and including
  the first success, and the result is 0 exactly when one of its calls returned 0 and
  \<open>-1\<close> otherwise.
\<close>

lemma sched_loop_order:
  assumes g: "xenUnifiedDomainGetSchedulerParametersFlags h structs priv 0 = (rg, eg, tg)"
    and s: "xenUnifiedDomainSetSchedulerParametersFlags h structs priv 0 = (rs, es, ts)"
  shows "subseq tg (slots h) \<and> subseq ts (rev (slots h))
       \<and> (rg \<noteq> None \<longrightarrow>
            tg = until_first_success (get_handler structs)
                   (filter (candidate priv (get_handler structs)) (slots h)))
       \<and> (rs \<noteq> None \<longrightarrow>
            ts = until_first_success (set_handler structs)
                   (filter (candidate priv (set_handler structs)) (rev (slots h))))
       \<and> (rg = Some 0) = (\<exists>b \<in> set tg. get_handler structs b = Some 0)
       \<and> (rs = Some 0) = (\<exists>b \<in> set ts. set_handler structs b = Some 0)
       \<and> (rg = None \<or> rg = Some 0 \<or> rg = Some (- 1))
       \<and> (rs = None \<or> rs = Some 0 \<or> rs = Some (- 1))"
proof -
  from g have geq: "get_sched_loop structs priv (slots h) = (rg, tg)"
    by (simp add: xenUnifiedDomainGetSchedulerParametersFlags_def virCheckFlags_none
             split: prod.splits)
  from s have seq: "set_sched_loop structs priv (rev (slots h)) = (rs, ts)"
    by (simp add: xenUnifiedDomainSetSchedulerParametersFlags_def virCheckFlags_none
             split: prod.splits)
  from get_sched_loop_subseq [of structs priv "slots h"] geq
  have 1: "subseq tg (slots h)" by simp
  from set_sched_loop_subseq [of structs priv "rev (slots h)"] seq
  have 2: "subseq ts (rev (slots h))" by simp
  from get_sched_loop_post [of priv structs "slots h"] geq
  have 3: "loop_post priv (get_handler structs) (slots h) (rg, tg)" by simp
  from set_sched_loop_post [of priv structs "rev (slots h)"] seq
  have 4: "loop_post priv (set_handler structs) (rev (slots h)) (rs, ts)" by simp
  from 1 2 3 4 show ?thesis unfolding loop_post_def fst_conv snd_conv by blast
qed

subsection \<open>Managed save images\<close>

text \<open>
  C9. In a session with save directory \<open>dir\<close>, for a domain named \<open>name\<close>, the only
  path the three managed-save functions ever use is \<open>dir/name.save\<close>: managed-save
  hands no other path to XenD's save, has-managed-save tests no other path and
  remove-managed-save unlinks no other path, for all flags and outcomes. When the call
  passes its checks (no flags, the path could be allocated), has-managed-save returns 1
  if a file exists at that path and 0 if not, remove-managed-save unlinks that path and
  returns what \<open>unlink\<close> returns, and managed-save (XenD activated) saves to that path.
\<close>

theorem managed_save_path_agreement:
  assumes dir: "saveDir priv = Some dir"
  shows "set (snd (snd (xenUnifiedDomainManagedSave env priv d flags)))
           \<subseteq> {DaemonDomainSave (managed_save_file dir (dom_name d))}
       \<and> set (snd (snd (xenUnifiedDomainHasManagedSaveImage env priv d flags)))
           \<subseteq> {FileExists (managed_save_file dir (dom_name d))}
       \<and> set (snd (snd (xenUnifiedDomainManagedSaveRemove env priv d flags)))
           \<subseteq> {Unlink (managed_save_file dir (dom_name d))}
       \<and> (flags = 0 \<and> asprintf_ok env \<longrightarrow>
             xenUnifiedDomainHasManagedSaveImage env priv d flags
               = ((if virFileExists_ret env (managed_save_file dir (dom_name d)) then 1 else 0),
                  None, [FileExists (managed_save_file dir (dom_name d))])
           \<and> xenUnifiedDomainManagedSaveRemove env priv d flags
               = (unlink_ret env (managed_save_file dir (dom_name d)),
                  None, [Unlink (managed_save_file dir (dom_name d))])
           \<and> (opened priv XenD \<longrightarrow>
                xenUnifiedDomainManagedSave env priv d flags
                  = (xenDaemonDomainSave_ret env (managed_save_file dir (dom_name d)),
                     None, [DaemonDomainSave (managed_save_file dir (dom_name d))])))"
proof -
  have path: "xenUnifiedDomainManagedSavePath env priv d
                = (if asprintf_ok env then Some (managed_save_file dir (dom_name d)) else None)"
    using dir by (simp add: xenUnifiedDomainManagedSavePath_def managed_save_file_def)
  show ?thesis
    unfolding xenUnifiedDomainManagedSave_def xenUnifiedDomainHasManagedSaveImage_def
      xenUnifiedDomainManagedSaveRemove_def path virCheckFlags_none
    by simp
qed

text \<open>The three functions on the domain \<open>vm1\<close>, whose image exists.\<close>

theorem managed_save_path_agreement_witness:
  "xenUnifiedDomainManagedSave example_save_env (example_priv 3) (vm1 5) 0
     = (0, None, [DaemonDomainSave ''/var/lib/libvirt/xen/save/vm1.save''])
   \<and> xenUnifiedDomainHasManagedSaveImage example_save_env (example_priv 3) (vm1 5) 0
     = (1, None, [FileExists ''/var/lib/libvirt/xen/save/vm1.save''])
   \<and> xenUnifiedDomainManagedSaveRemove example_save_env (example_priv 3) (vm1 5) 0
     = (0, None, [Unlink ''/var/lib/libvirt/xen/save/vm1.save''])"
proof -
  have dir: "saveDir (example_priv 3) = Some ''/var/lib/libvirt/xen/save''"
    by (simp add: example_priv_def)
  from managed_save_path_agreement [OF dir, of example_save_env "vm1 5" 0]
  show ?thesis
    by (simp add: managed_save_file_def example_save_env_def example_priv_def vm1_def)
qed

subsection \<open>Opening a connection\<close>





lemma unwind_calls:
  "WITH_XEN_INOTIFY h \<or> \<not> opened priv Inotify \<Longrightarrow>
   (if WITH_XEN_INOTIFY h \<and> opened priv Inotify then [Closed Inotify] else [])
     @ (if opened priv XM then [Closed XM] else [])
     @ (if opened priv XS then [Closed XS] else [])
     @ (if opened priv XenD then [Closed XenD] else [])
     @ (if opened priv Hypervisor then [Closed Hypervisor] else [])
   = map Closed (filter (opened priv) [Inotify, XM, XS, XenD, Hypervisor])"
  by auto



lemma open_error_status: "fst (open_error h conn priv tr) = VIR_DRV_OPEN_ERROR"
  by (simp add: open_error_def)
















lemma keeps_held_step:
  "keeps_held (tr @ es) res \<Longrightarrow> filter is_release es = [] \<Longrightarrow> keeps_held tr res"
  by (auto simp: keeps_held_def)

lemma open_error_held: "keeps_held tr (open_error h conn priv tr)"
  by (auto simp: keeps_held_def open_error_def is_release_def)

lemma open_savedir_held: "keeps_held tr (open_savedir h env conn priv tr)"
proof -
  have "keeps_held (tr @ [MakePath]) (open_error h conn p (tr @ [MakePath]))" for p
    by (rule open_error_held)
  then have "keeps_held tr (open_error h conn p (tr @ [MakePath]))" for p
    by (rule keeps_held_step) (simp add: is_release_def)
  moreover have "keeps_held tr (VIR_DRV_OPEN_SUCCESS, c, tr @ [MakePath])" for c
    by (auto simp: keeps_held_def is_release_def)
  ultimately show ?thesis
    by (simp add: open_savedir_def Let_def open_error_held)
qed

lemma open_inotify_held: "keeps_held tr (open_inotify h env conn priv tr)"
proof -
  have a: "keeps_held tr (open_error h conn p (tr @ [Trying Inotify]))" for p
    by (rule keeps_held_step [OF open_error_held]) (simp add: is_release_def)
  have b: "keeps_held tr (open_savedir h env conn p (tr @ [Trying Inotify, Activated Inotify]))"
    for p
    by (rule keeps_held_step [OF open_savedir_held]) (simp add: is_release_def)
  from a b show ?thesis by (simp add: open_inotify_def open_savedir_held)
qed

lemma open_caps_held: "keeps_held tr (open_caps h env conn priv tr)"
proof -
  have a: "keeps_held tr (open_error h conn p (tr @ [NumaInit, MakeCapabilities]))" for p
    by (rule keeps_held_step [OF open_error_held]) (simp add: is_release_def)
  have b: "keeps_held tr (open_error h conn p (tr @ [NumaInit, MakeCapabilities, XMLConfInit]))"
    for p
    by (rule keeps_held_step [OF open_error_held]) (simp add: is_release_def)
  have c: "keeps_held tr
             (open_inotify h env conn p (tr @ [NumaInit, MakeCapabilities, XMLConfInit]))" for p
    by (rule keeps_held_step [OF open_inotify_held]) (simp add: is_release_def)
  from a b c show ?thesis by (simp add: open_caps_def Let_def)
qed

lemma open_xs_held: "keeps_held tr (open_xs h env conn priv tr)"
proof -
  have a: "keeps_held tr (open_error h conn p (tr @ [Trying XS]))" for p
    by (rule keeps_held_step [OF open_error_held]) (simp add: is_release_def)
  have b: "keeps_held tr (open_caps h env conn p (tr @ [Trying XS, Activated XS]))" for p
    by (rule keeps_held_step [OF open_caps_held]) (simp add: is_release_def)
  from a b show ?thesis by (simp add: open_xs_def)
qed

lemma open_xm_held: "keeps_held tr (open_xm h env conn priv tr)"
proof -
  have a: "keeps_held tr (open_error h conn p (tr @ [Trying XM]))" for p
    by (rule keeps_held_step [OF open_error_held]) (simp add: is_release_def)
  have b: "keeps_held tr (open_xs h env conn p (tr @ [Trying XM, Activated XM]))" for p
    by (rule keeps_held_step [OF open_xs_held]) (simp add: is_release_def)
  from a b show ?thesis by (simp add: open_xm_def open_xs_held)
qed

lemma open_xend_held: "keeps_held tr (open_xend h env conn priv tr)"
proof -
  have a: "keeps_held tr (open_error h conn p (tr @ [Trying XenD]))" for p
    by (rule keeps_held_step [OF open_error_held]) (simp add: is_release_def)
  have b: "keeps_held tr (open_xm h env conn p (tr @ [Trying XenD, Activated XenD]))" for p
    by (rule keeps_held_step [OF open_xm_held]) (simp add: is_release_def)
  from a b show ?thesis by (simp add: open_xend_def Let_def)
qed

lemma open_hypervisor_held: "keeps_held tr (open_hypervisor h env conn priv tr)"
proof -
  have a: "keeps_held tr (open_error h conn p (tr @ [Trying Hypervisor]))" for p
    by (rule keeps_held_step [OF open_error_held]) (simp add: is_release_def)
  have b: "keeps_held tr
             (open_xend h env conn p (tr @ [Trying Hypervisor, Activated Hypervisor]))" for p
    by (rule keeps_held_step [OF open_xend_held]) (simp add: is_release_def)
  from a b show ?thesis by (simp add: open_hypervisor_def)
qed


lemma open_never_releases:
  "filter is_release (snd (snd (xenUnifiedConnectOpen h is_privileged env conn))) = []"
proof -
  have "filter is_release (snd (snd (open_session h env c))) = []" for c
    using open_hypervisor_held [of "[MutexInit, EventStateNew]" h env
            "c\<lparr>privateData := Some new_priv\<rparr>" new_priv]
    by (simp add: open_session_def keeps_held_def is_release_def)
  then show ?thesis
    by (simp add: xenUnifiedConnectOpen_def split: prod.splits option.splits)
qed

text \<open>
  The other way to end a session, for comparison: \<open>xenUnifiedConnectClose\<close> makes the
  same close calls in the same order and does release the capabilities, the XML options
  and the event state before them.
\<close>

lemma close_releases:
  assumes "privateData conn = Some priv" and "WITH_XEN_INOTIFY h \<or> \<not> opened priv Inotify"
  shows "xenUnifiedConnectClose h conn
           = Some (0, conn\<lparr>privateData := None\<rparr>,
                   [CapsUnref, XmloptUnref, EventStateFree]
                     @ map Closed (filter (opened priv) [Inotify, XM, XS, XenD, Hypervisor])
                     @ [FreeSaveDir, MutexDestroy, FreePriv])"
  using assms unwind_calls [OF assms(2)]
  by (simp add: xenUnifiedConnectClose_def)


text \<open>
  An old XenD on which every sub-driver opens and the capabilities cannot be built.
\<close>

lemma example_scheme: "STRCASEEQ ''xen'' ''xen'' \<and> \<not> STRCASENEQ ''xen'' ''xen''"
  by (simp add: STRCASEEQ_def STRCASENEQ_def)

lemma example_accepted:
  "open_uri_checks example_hdr True (example_open_env c) (example_conn ''xen'' None ''/'')
     = (None, example_conn ''xen'' None ''/'')"
  by (simp add: open_uri_checks_def open_xend_probe_def example_conn_def example_hdr_def
      example_scheme)




text \<open>
  C5, amended. For a connection with a URI that has a scheme: in a privileged process,
  an accepted scheme (\<open>xen\<close> or \<open>http\<close>, in any case) with a path that is present and
  neither empty nor \<open>/\<close> gives \<open>VIR_DRV_OPEN_ERROR\<close> before anything is allocated; a
  scheme that is neither of the two gives \<open>VIR_DRV_OPEN_DECLINED\<close>; the \<open>xen\<close> scheme
  with a server gives \<open>VIR_DRV_OPEN_DECLINED\<close> provided the path is absent, empty or
  \<open>/\<close>; and with such a path the open is either declined or is exactly the attempt to
  build the session, so an error then never comes from the path.
\<close>

theorem uri_rules:
  assumes u: "uri conn = Some u" and s: "uri_scheme u = Some s"
  shows "(is_privileged \<and> (STRCASEEQ s ''xen'' \<or> STRCASEEQ s ''http'')
            \<and> (\<exists>p. uri_path u = Some p \<and> p \<noteq> [] \<and> p \<noteq> ''/'')
          \<longrightarrow> xenUnifiedConnectOpen h is_privileged env conn = (VIR_DRV_OPEN_ERROR, conn, []))
       \<and> (\<not> STRCASEEQ s ''xen'' \<and> \<not> STRCASEEQ s ''http''
          \<longrightarrow> xenUnifiedConnectOpen h is_privileged env conn = (VIR_DRV_OPEN_DECLINED, conn, []))
       \<and> (STRCASEEQ s ''xen'' \<and> uri_server u \<noteq> None
            \<and> (uri_path u = None \<or> uri_path u = Some [] \<or> uri_path u = Some ''/'')
          \<longrightarrow> xenUnifiedConnectOpen h is_privileged env conn = (VIR_DRV_OPEN_DECLINED, conn, []))
       \<and> (uri_path u = None \<or> uri_path u = Some [] \<or> uri_path u = Some ''/''
          \<longrightarrow> fst (xenUnifiedConnectOpen h is_privileged env conn) = VIR_DRV_OPEN_DECLINED
              \<or> xenUnifiedConnectOpen h is_privileged env conn = open_session h env conn)"
proof (intro conjI impI)
  assume "is_privileged \<and> (STRCASEEQ s ''xen'' \<or> STRCASEEQ s ''http'')
            \<and> (\<exists>p. uri_path u = Some p \<and> p \<noteq> [] \<and> p \<noteq> ''/'')"
  with u s show "xenUnifiedConnectOpen h is_privileged env conn = (VIR_DRV_OPEN_ERROR, conn, [])"
    by (auto simp: xenUnifiedConnectOpen_def open_uri_checks_def STRCASEEQ_def STRCASENEQ_def)
next
  assume "\<not> STRCASEEQ s ''xen'' \<and> \<not> STRCASEEQ s ''http''"
  with u s show "xenUnifiedConnectOpen h is_privileged env conn = (VIR_DRV_OPEN_DECLINED, conn, [])"
    by (simp add: xenUnifiedConnectOpen_def open_uri_checks_def STRCASEEQ_def STRCASENEQ_def)
next
  assume "STRCASEEQ s ''xen'' \<and> uri_server u \<noteq> None
            \<and> (uri_path u = None \<or> uri_path u = Some [] \<or> uri_path u = Some ''/'')"
  with u s show "xenUnifiedConnectOpen h is_privileged env conn = (VIR_DRV_OPEN_DECLINED, conn, [])"
    by (auto simp: xenUnifiedConnectOpen_def open_uri_checks_def STRCASEEQ_def STRCASENEQ_def)
next
  assume "uri_path u = None \<or> uri_path u = Some [] \<or> uri_path u = Some ''/''"
  with u s show "fst (xenUnifiedConnectOpen h is_privileged env conn) = VIR_DRV_OPEN_DECLINED
              \<or> xenUnifiedConnectOpen h is_privileged env conn = open_session h env conn"
    by (auto simp: xenUnifiedConnectOpen_def open_uri_checks_def open_xend_probe_def)
qed

text \<open>
  C5, as stated, fails twice: in a privileged process \<open>xen://example.org/foo\<close> names a
  remote server on the \<open>xen\<close> scheme and yet gives an error, not a decline, because the
  path is tested first; and in an unprivileged process \<open>xen:///foo\<close> is declined, not an
  error, because the privilege is tested before the URI.
\<close>

theorem uri_rules_counterexample:
  "fst (xenUnifiedConnectOpen example_hdr True (example_open_env True)
          (example_conn ''xen'' (Some ''example.org'') ''/foo'')) = VIR_DRV_OPEN_ERROR
   \<and> fst (xenUnifiedConnectOpen example_hdr False (example_open_env True)
          (example_conn ''xen'' None ''/foo'')) = VIR_DRV_OPEN_DECLINED"
  by (simp add: xenUnifiedConnectOpen_def open_uri_checks_def example_conn_def example_scheme)

text \<open>
  In a privileged process: \<open>xen:///foo\<close> is an error, \<open>qemu:///\<close> is declined, and
  \<open>xen://example.org/\<close> is declined.
\<close>

theorem uri_rules_witness:
  "xenUnifiedConnectOpen example_hdr True (example_open_env True)
       (example_conn ''xen'' None ''/foo'')
     = (VIR_DRV_OPEN_ERROR, example_conn ''xen'' None ''/foo'', [])
   \<and> xenUnifiedConnectOpen example_hdr True (example_open_env True)
       (example_conn ''qemu'' None ''/'')
     = (VIR_DRV_OPEN_DECLINED, example_conn ''qemu'' None ''/'', [])
   \<and> xenUnifiedConnectOpen example_hdr True (example_open_env True)
       (example_conn ''xen'' (Some ''example.org'') ''/'')
     = (VIR_DRV_OPEN_DECLINED, example_conn ''xen'' (Some ''example.org'') ''/'', [])"
proof -
  have sx: "STRCASEEQ ''xen'' ''xen''" by (simp add: STRCASEEQ_def)
  have sq: "\<not> STRCASEEQ ''qemu'' ''xen'' \<and> \<not> STRCASEEQ ''qemu'' ''http''"
    by (simp add: STRCASEEQ_def c_tolower_def)
  from uri_rules [of "example_conn ''xen'' None ''/foo''"
         "\<lparr>uri_scheme = Some ''xen'', uri_server = None, uri_path = Some ''/foo''\<rparr>" "''xen''"
         True example_hdr "example_open_env True"]
       uri_rules [of "example_conn ''qemu'' None ''/''"
         "\<lparr>uri_scheme = Some ''qemu'', uri_server = None, uri_path = Some ''/''\<rparr>" "''qemu''"
         True example_hdr "example_open_env True"]
       uri_rules [of "example_conn ''xen'' (Some ''example.org'') ''/''"
         "\<lparr>uri_scheme = Some ''xen'', uri_server = Some ''example.org'', uri_path = Some ''/''\<rparr>"
         "''xen''" True example_hdr "example_open_env True"]
       sx sq
  show ?thesis by (simp add: example_conn_def)
qed

text \<open>
  What a successful open leaves behind: private data with the save directory set and
  the hypervisor, XenD and XenStore sub-drivers activated.
\<close>

lemma ready_weaken:
  "session_ready h op' r \<Longrightarrow> (\<And>b. op b \<Longrightarrow> op' b) \<Longrightarrow> session_ready h op r"
  by (auto simp: session_ready_def)

lemma ready_activated:
  "session_ready h (opened (priv\<lparr>opened := (opened priv)(x := True)\<rparr>)) r
     \<Longrightarrow> session_ready h (\<lambda>b. opened priv b \<or> b = x) r"
  by (auto simp: session_ready_def)

lemma open_error_ready: "session_ready h op (open_error h conn priv tr)"
  by (simp add: session_ready_def open_error_def)

lemma open_savedir_ready: "session_ready h (opened priv) (open_savedir h env conn priv tr)"
proof (cases "strdup_saveDir_ok env \<and> \<not> virFileMakePath_ret env < 0")
  case True
  then show ?thesis by (simp add: open_savedir_def session_ready_def)
next
  case False
  then have "\<exists>p t. open_savedir h env conn priv tr = open_error h conn p t"
    by (auto simp: open_savedir_def Let_def)
  then show ?thesis by (auto simp: open_error_ready)
qed

lemma open_inotify_ready: "session_ready h (opened priv) (open_inotify h env conn priv tr)"
proof (cases "WITH_XEN_INOTIFY h")
  case False
  then show ?thesis by (simp add: open_inotify_def open_savedir_ready)
next
  case w: True
  show ?thesis
  proof (cases "xenInotifyOpen_ret env < 0")
    case True
    with w show ?thesis by (simp add: open_inotify_def open_error_ready)
  next
    case False
    let ?p = "priv\<lparr>opened := (opened priv)(Inotify := True)\<rparr>"
    have "session_ready h (opened ?p)
            (open_savedir h env conn ?p (tr @ [Trying Inotify, Activated Inotify]))"
      by (rule open_savedir_ready)
    then have "session_ready h (opened priv)
            (open_savedir h env conn ?p (tr @ [Trying Inotify, Activated Inotify]))"
      by (rule ready_weaken) simp
    with w False show ?thesis by (simp add: open_inotify_def)
  qed
qed

lemma open_caps_ready: "session_ready h (opened priv) (open_caps h env conn priv tr)"
proof (cases "xenHypervisorMakeCapabilities_ok env \<and> xenDomainXMLConfInit_ok env")
  case False
  then have "\<exists>p t. open_caps h env conn priv tr = open_error h conn p t"
    by (auto simp: open_caps_def Let_def)
  then show ?thesis by (auto simp: open_error_ready)
next
  case True
  let ?p = "(xenNumaInit env priv)\<lparr>caps := True, xmlopt := True\<rparr>"
  have "session_ready h (opened ?p)
          (open_inotify h env conn ?p (tr @ [NumaInit, MakeCapabilities, XMLConfInit]))"
    by (rule open_inotify_ready)
  then have "session_ready h (opened priv)
          (open_inotify h env conn ?p (tr @ [NumaInit, MakeCapabilities, XMLConfInit]))"
    by (rule ready_weaken) (simp add: xenNumaInit_def split: option.splits prod.splits)
  with True show ?thesis by (simp add: open_caps_def Let_def)
qed

lemma open_xs_ready:
  "session_ready h (\<lambda>b. opened priv b \<or> b = XS) (open_xs h env conn priv tr)"
proof (cases "xenStoreOpen_ret env < 0")
  case True
  then show ?thesis by (simp add: open_xs_def open_error_ready)
next
  case False
  let ?p = "priv\<lparr>opened := (opened priv)(XS := True)\<rparr>"
  have "session_ready h (opened ?p) (open_caps h env conn ?p (tr @ [Trying XS, Activated XS]))"
    by (rule open_caps_ready)
  then have "session_ready h (\<lambda>b. opened priv b \<or> b = XS)
               (open_caps h env conn ?p (tr @ [Trying XS, Activated XS]))"
    by (rule ready_activated)
  with False show ?thesis by (simp add: open_xs_def)
qed

lemma open_xm_ready:
  "session_ready h (\<lambda>b. opened priv b \<or> b = XS) (open_xm h env conn priv tr)"
proof (cases "xendConfigVersion priv \<le> XEND_CONFIG_VERSION_3_0_3 h")
  case False
  then show ?thesis by (simp add: open_xm_def open_xs_ready)
next
  case old: True
  show ?thesis
  proof (cases "xenXMOpen_ret env < 0")
    case True
    with old show ?thesis by (simp add: open_xm_def open_error_ready)
  next
    case False
    let ?p = "priv\<lparr>opened := (opened priv)(XM := True)\<rparr>"
    have "session_ready h (\<lambda>b. opened ?p b \<or> b = XS)
            (open_xs h env conn ?p (tr @ [Trying XM, Activated XM]))"
      by (rule open_xs_ready)
    then have "session_ready h (\<lambda>b. opened priv b \<or> b = XS)
            (open_xs h env conn ?p (tr @ [Trying XM, Activated XM]))"
      by (rule ready_weaken) auto
    with old False show ?thesis by (simp add: open_xm_def)
  qed
qed

lemma open_xend_ready:
  "session_ready h (\<lambda>b. opened priv b \<or> b = XS \<or> b = XenD) (open_xend h env conn priv tr)"
proof (cases "xenDaemonOpen_ret env < 0")
  case True
  then show ?thesis by (simp add: open_xend_def open_error_ready)
next
  case False
  let ?p' = "priv\<lparr>xendConfigVersion := xenDaemonOpen_version env\<rparr>"
  let ?p = "?p'\<lparr>opened := (opened ?p')(XenD := True)\<rparr>"
  have "session_ready h (\<lambda>b. opened ?p b \<or> b = XS)
          (open_xm h env conn ?p (tr @ [Trying XenD, Activated XenD]))"
    by (rule open_xm_ready)
  then have "session_ready h (\<lambda>b. opened priv b \<or> b = XS \<or> b = XenD)
          (open_xm h env conn ?p (tr @ [Trying XenD, Activated XenD]))"
    by (rule ready_weaken) auto
  with False show ?thesis by (simp add: open_xend_def Let_def)
qed

lemma open_hypervisor_ready:
  "session_ready h (\<lambda>b. b = XS \<or> b = XenD \<or> b = Hypervisor)
     (open_hypervisor h env conn priv tr)"
proof (cases "xenHypervisorOpen_ret env < 0")
  case True
  then show ?thesis by (simp add: open_hypervisor_def open_error_ready)
next
  case False
  let ?p = "priv\<lparr>opened := (opened priv)(Hypervisor := True)\<rparr>"
  have "session_ready h (\<lambda>b. opened ?p b \<or> b = XS \<or> b = XenD)
          (open_xend h env conn ?p (tr @ [Trying Hypervisor, Activated Hypervisor]))"
    by (rule open_xend_ready)
  then have "session_ready h (\<lambda>b. b = XS \<or> b = XenD \<or> b = Hypervisor)
          (open_xend h env conn ?p (tr @ [Trying Hypervisor, Activated Hypervisor]))"
    by (rule ready_weaken) auto
  with False show ?thesis by (simp add: open_hypervisor_def)
qed

lemma open_success_session:
  assumes "xenUnifiedConnectOpen h is_privileged env conn = (VIR_DRV_OPEN_SUCCESS, conn', tr)"
  shows "\<exists>priv. privateData conn' = Some priv
           \<and> saveDir priv = Some (LOCALSTATEDIR h @ ''/lib/libvirt/xen/save'')
           \<and> opened priv Hypervisor \<and> opened priv XenD \<and> opened priv XS"
proof -
  obtain st conn1 where chk: "open_uri_checks h is_privileged env conn = (st, conn1)"
    by (cases "open_uri_checks h is_privileged env conn")
  show ?thesis
  proof (cases st)
    case None
    with chk assms have s: "open_session h env conn1 = (VIR_DRV_OPEN_SUCCESS, conn', tr)"
      by (simp add: xenUnifiedConnectOpen_def)
    then have "open_hypervisor h env (conn1\<lparr>privateData := Some new_priv\<rparr>) new_priv
                 [MutexInit, EventStateNew] = (VIR_DRV_OPEN_SUCCESS, conn', tr)"
      by (simp add: open_session_def split: if_splits)
    with open_hypervisor_ready [of h env "conn1\<lparr>privateData := Some new_priv\<rparr>" new_priv
           "[MutexInit, EventStateNew]"]
    show ?thesis unfolding session_ready_def by auto
  next
    case (Some status)
    with chk assms have "status = VIR_DRV_OPEN_SUCCESS"
      by (simp add: xenUnifiedConnectOpen_def)
    with chk Some have False
      by (auto simp: open_uri_checks_def open_xend_probe_def
               split: if_splits option.splits)
    then show ?thesis ..
  qed
qed

text \<open>
  Hence in a session returned by a successful open, a managed save that passes its
  checks always reaches XenD, with the image path under the state directory.
\<close>

lemma session_managed_save:
  assumes "xenUnifiedConnectOpen h is_privileged oenv conn = (VIR_DRV_OPEN_SUCCESS, conn', tr)"
    and "privateData conn' = Some priv" and "asprintf_ok env"
  shows "xenUnifiedDomainManagedSave env priv d 0
           = (xenDaemonDomainSave_ret env
                (managed_save_file (LOCALSTATEDIR h @ ''/lib/libvirt/xen/save'') (dom_name d)),
              None,
              [DaemonDomainSave
                (managed_save_file (LOCALSTATEDIR h @ ''/lib/libvirt/xen/save'') (dom_name d))])"
proof -
  from open_success_session [OF assms(1)] assms(2)
  have "saveDir priv = Some (LOCALSTATEDIR h @ ''/lib/libvirt/xen/save'')"
    and "opened priv XenD"
    by auto
  with assms(3) show ?thesis
    by (simp add: xenUnifiedDomainManagedSave_def xenUnifiedDomainManagedSavePath_def
        virCheckFlags_none managed_save_file_def)
qed

subsection \<open>Scheduler parameters in a session returned by open\<close>

text \<open>
  A loop that reaches an activated slot without table entry ends there in a null
  pointer dereference: it never returns \<open>-1\<close>, and it calls no slot at or after
  that one in its order.
\<close>

lemma get_sched_loop_null_slot:
  assumes "b \<in> set bs" "opened priv b" "drivers structs b = None"
  shows "fst (get_sched_loop structs priv bs) \<noteq> Some (- 1)
       \<and> subseq (snd (get_sched_loop structs priv bs)) (takeWhile (\<lambda>c. c \<noteq> b) bs)"
  using assms
proof (induction bs)
  case Nil
  then show ?case by simp
next
  case (Cons x xs)
  show ?case
  proof (cases "x = b")
    case True
    with Cons.prems show ?thesis by simp
  next
    case False
    with Cons.prems have "b \<in> set xs" by simp
    from Cons.IH [OF this Cons.prems(2,3)] False show ?thesis
      by (auto split: option.splits prod.splits)
  qed
qed

lemma set_sched_loop_null_slot:
  assumes "b \<in> set bs" "opened priv b" "drivers structs b = None"
  shows "fst (set_sched_loop structs priv bs) \<noteq> Some (- 1)
       \<and> subseq (snd (set_sched_loop structs priv bs)) (takeWhile (\<lambda>c. c \<noteq> b) bs)"
  using assms
proof (induction bs)
  case Nil
  then show ?case by simp
next
  case (Cons x xs)
  show ?case
  proof (cases "x = b")
    case True
    with Cons.prems show ?thesis by simp
  next
    case False
    with Cons.prems have "b \<in> set xs" by simp
    from Cons.IH [OF this Cons.prems(2,3)] False show ?thesis
      by (auto split: option.splits prod.splits)
  qed
qed

text \<open>
  Every successful open activates XenStore, which has no table entry. So in any
  session an open returns, neither scheduler function ever returns \<open>-1\<close>, the getter
  calls no sub-driver in a slot above XenStore and the setter none in a slot below it.
\<close>

lemma session_sched_null_slot:
  assumes ok: "xenUnifiedConnectOpen h is_privileged env conn = (VIR_DRV_OPEN_SUCCESS, conn', tr)"
    and p: "privateData conn' = Some priv"
    and xs: "XS \<in> set (slots h)"
  shows "fst (xenUnifiedDomainGetSchedulerParametersFlags h structs priv 0) \<noteq> Some (- 1)
       \<and> subseq (snd (snd (xenUnifiedDomainGetSchedulerParametersFlags h structs priv 0)))
           (takeWhile (\<lambda>c. c \<noteq> XS) (slots h))
       \<and> fst (xenUnifiedDomainSetSchedulerParametersFlags h structs priv 0) \<noteq> Some (- 1)
       \<and> subseq (snd (snd (xenUnifiedDomainSetSchedulerParametersFlags h structs priv 0)))
           (takeWhile (\<lambda>c. c \<noteq> XS) (rev (slots h)))"
proof -
  from open_success_session [OF ok] p have op: "opened priv XS" by auto
  have d: "drivers structs XS = None" by (simp add: drivers_def)
  from xs have xr: "XS \<in> set (rev (slots h))" by simp
  have g: "xenUnifiedDomainGetSchedulerParametersFlags h structs priv 0
             = (fst (get_sched_loop structs priv (slots h)), None,
                snd (get_sched_loop structs priv (slots h)))"
    by (simp add: xenUnifiedDomainGetSchedulerParametersFlags_def virCheckFlags_none
        split: prod.splits)
  have s: "xenUnifiedDomainSetSchedulerParametersFlags h structs priv 0
             = (fst (set_sched_loop structs priv (rev (slots h))), None,
                snd (set_sched_loop structs priv (rev (slots h))))"
    by (simp add: xenUnifiedDomainSetSchedulerParametersFlags_def virCheckFlags_none
        split: prod.splits)
  from get_sched_loop_null_slot [OF xs op d] set_sched_loop_null_slot [OF xr op d]
  show ?thesis unfolding g s fst_conv snd_conv by blast
qed

text \<open>
  The session of an old XenD (version 2) on which every step of the open succeeds.
\<close>

lemma example_all_opened:
  "(\<lambda>b. False)(Hypervisor := True, XenD := True, XM := True, XS := True, Inotify := True)
     = (\<lambda>b. True)"
proof
  fix b :: backend
  show "((\<lambda>b. False)(Hypervisor := True, XenD := True, XM := True, XS := True,
           Inotify := True)) b = True"
    by (cases b) simp_all
qed

lemma example_open_success:
  "xenUnifiedConnectOpen example_hdr True (example_open_env True) (example_conn ''xen'' None ''/'')
     = (VIR_DRV_OPEN_SUCCESS,
        (example_conn ''xen'' None ''/'')\<lparr>privateData := Some (example_priv 2)\<rparr>,
        [MutexInit, EventStateNew, Trying Hypervisor, Activated Hypervisor,
         Trying XenD, Activated XenD, Trying XM, Activated XM, Trying XS, Activated XS,
         NumaInit, MakeCapabilities, XMLConfInit, Trying Inotify, Activated Inotify,
         MakePath])"
proof -
  have "xenUnifiedConnectOpen example_hdr True (example_open_env True)
          (example_conn ''xen'' None ''/'')
        = open_session example_hdr (example_open_env True) (example_conn ''xen'' None ''/'')"
    by (simp only: xenUnifiedConnectOpen_def example_accepted prod.case option.case)
  also have "\<dots> = (VIR_DRV_OPEN_SUCCESS,
        (example_conn ''xen'' None ''/'')\<lparr>privateData := Some (example_priv 2)\<rparr>,
        [MutexInit, EventStateNew, Trying Hypervisor, Activated Hypervisor,
         Trying XenD, Activated XenD, Trying XM, Activated XM, Trying XS, Activated XS,
         NumaInit, MakeCapabilities, XMLConfInit, Trying Inotify, Activated Inotify,
         MakePath])"
    by (simp add: open_session_def open_hypervisor_def open_xend_def open_xm_def open_xs_def
        open_caps_def open_inotify_def open_savedir_def xenNumaInit_def new_priv_def
        example_open_env_def example_hdr_def example_conn_def example_priv_def
        example_all_opened)
  finally show ?thesis .
qed

text \<open>
  C8 does not hold of the code. Slot order hypervisor, XenD, XenStore, XM, inotify; the
  session is the one returned by the successful open above, with all five sub-drivers
  activated; XenD's setter and XM's getter would succeed. The setter starts at the
  inotify slot, which has no table entry, and dereferences a null pointer before
  calling any sub-driver: it reaches neither XM nor XenD. The getter calls the
  hypervisor and XenD, then dereferences the null pointer of the XenStore slot and
  never reaches XM. Neither returns the result of the first sub-driver that succeeds.
\<close>

theorem scheduler_null_dereference:
  "fst (xenUnifiedConnectOpen example_hdr True (example_open_env True)
          (example_conn ''xen'' None ''/'')) = VIR_DRV_OPEN_SUCCESS
   \<and> privateData (fst (snd (xenUnifiedConnectOpen example_hdr True (example_open_env True)
          (example_conn ''xen'' None ''/'')))) = Some (example_priv 2)
   \<and> set_handler example_structs XenD = Some 0
   \<and> xenUnifiedDomainSetSchedulerParametersFlags example_hdr example_structs (example_priv 2) 0
       = (None, None, [])
   \<and> get_handler example_structs XM = Some 0
   \<and> xenUnifiedDomainGetSchedulerParametersFlags example_hdr example_structs (example_priv 2) 0
       = (None, None, [Hypervisor, XenD])"
proof -
  have s: "xenUnifiedDomainSetSchedulerParametersFlags example_hdr example_structs
             (example_priv 2) 0 = (None, None, [])"
    by (simp add: xenUnifiedDomainSetSchedulerParametersFlags_def virCheckFlags_none
        example_hdr_def example_structs_def example_priv_def drivers_def)
  have g: "xenUnifiedDomainGetSchedulerParametersFlags example_hdr example_structs
             (example_priv 2) 0 = (None, None, [Hypervisor, XenD])"
    by (simp add: xenUnifiedDomainGetSchedulerParametersFlags_def virCheckFlags_none
        example_hdr_def example_structs_def example_priv_def drivers_def)
  have h: "set_handler example_structs XenD = Some 0 \<and> get_handler example_structs XM = Some 0"
    by (simp add: set_handler_def get_handler_def drivers_def example_structs_def)
  from s g h show ?thesis by (simp add: example_open_success)
qed

subsection \<open>PCI node devices\<close>

lemma assigned_scan_found:
  "\<exists>i \<in> set ids. xenStoreDomainGetPCIID_ret env i bdf \<noteq> None \<Longrightarrow> \<forall>i \<in> set ids. 0 \<le> i
     \<Longrightarrow> 0 \<le> fst (assigned_scan env bdf ids)"
proof (induction ids)
  case Nil
  then show ?case by simp
next
  case (Cons i ids)
  show ?case
  proof (cases "xenStoreDomainGetPCIID_ret env i bdf")
    case None
    with Cons.prems have "\<exists>i \<in> set ids. xenStoreDomainGetPCIID_ret env i bdf \<noteq> None"
      and "\<forall>i \<in> set ids. 0 \<le> i"
      by auto
    then have "0 \<le> fst (assigned_scan env bdf ids)" by (rule Cons.IH)
    with None show ?thesis by (cases "assigned_scan env bdf ids") simp
  next
    case (Some xref)
    with Cons.prems show ?thesis by simp
  qed
qed

lemma assigned_scan_calls:
  "PCIDeviceReattach a \<notin> set (snd (assigned_scan env bdf ids))"
  by (induction ids) (auto split: option.splits prod.splits)

lemma example_bdf: "pci_bdf (0, 3, 0, 0) = ''0000:03:00.0''"
  by code_simp

text \<open>
  C2, amended. The check against the running domains is made by the re-attach
  operation, not by detach. For a PCI device that the scan finds assigned (running
  domains exist and are listed with non-negative ids, and the XenStore lookup of the
  device's address \<open>dddd:bb:ss.f\<close> succeeds for one of the listed domains), re-attach
  returns \<open>-1\<close> with an internal error and never calls \<open>virPCIDeviceReattach\<close>.
  Detach, called without a driver name and without flags on the same device, makes no
  lookup at all: it calls \<open>virPCIDeviceDetach\<close> and succeeds or fails with it.
\<close>

theorem reattach_refuses_assigned:
  assumes pci: "xenUnifiedNodeDeviceGetPciInfo env = (Some a, e0)"
    and new: "virPCIDeviceNew_ok env"
    and n: "0 < xenStoreNumOfDomains_ret env"
    and al: "alloc_ids_ok env" and bdf: "asprintf_bdf_ok env"
    and ld: "xenStoreListDomains_ret env (xenStoreNumOfDomains_ret env) = Some ids"
    and nonneg: "\<forall>i \<in> set ids. 0 \<le> i"
    and d: "d \<in> set (take (nat (xenStoreNumOfDomains_ret env)) ids)"
    and asg: "xenStoreDomainGetPCIID_ret env d (pci_bdf a) \<noteq> None"
  shows "(\<exists>t. xenUnifiedNodeDeviceReAttach env = (- 1, Some VIR_ERR_INTERNAL_ERROR, t)
              \<and> PCIDeviceReattach a \<notin> set t)
       \<and> xenUnifiedNodeDeviceDetachFlags env None 0
           = ((if virPCIDeviceDetach_ret env < 0 then - 1 else 0), None, [PCIDeviceDetach a])"
proof
  let ?ids = "take (nat (xenStoreNumOfDomains_ret env)) ids"
  obtain r t where sc: "assigned_scan env (pci_bdf a) ?ids = (r, t)"
    by (cases "assigned_scan env (pci_bdf a) ?ids")
  from nonneg have nn: "\<forall>i \<in> set ?ids. 0 \<le> i"
    by (meson in_set_takeD)
  from d asg have "\<exists>i \<in> set ?ids. xenStoreDomainGetPCIID_ret env i (pci_bdf a) \<noteq> None"
    by blast
  from assigned_scan_found [OF this nn] sc have r: "0 \<le> r" by simp
  from assigned_scan_calls [of a env "pci_bdf a" ?ids] sc
  have t: "PCIDeviceReattach a \<notin> set t" by simp
  have "xenUnifiedNodeDeviceAssignedDomainId env = (r, None, t)"
    using pci n al bdf ld sc
    by (simp add: xenUnifiedNodeDeviceAssignedDomainId_def)
  with pci new r have "xenUnifiedNodeDeviceReAttach env = (- 1, Some VIR_ERR_INTERNAL_ERROR, t)"
    by (simp add: xenUnifiedNodeDeviceReAttach_def)
  with t show "\<exists>t. xenUnifiedNodeDeviceReAttach env = (- 1, Some VIR_ERR_INTERNAL_ERROR, t)
              \<and> PCIDeviceReattach a \<notin> set t"
    by blast
next
  from pci new show "xenUnifiedNodeDeviceDetachFlags env None 0
           = ((if virPCIDeviceDetach_ret env < 0 then - 1 else 0), None, [PCIDeviceDetach a])"
    by (simp add: xenUnifiedNodeDeviceDetachFlags_def virCheckFlags_def)
qed

text \<open>The device 0000:03:00.0, assigned to the running domain 5.\<close>

lemma example_pci_info:
  "xenUnifiedNodeDeviceGetPciInfo example_nodedev_env = (Some (0, 3, 0, 0), None)"
  by (simp add: xenUnifiedNodeDeviceGetPciInfo_def example_nodedev_env_def)

lemma example_store:
  "xenStoreNumOfDomains_ret example_nodedev_env = 2"
  "alloc_ids_ok example_nodedev_env"
  "asprintf_bdf_ok example_nodedev_env"
  "virPCIDeviceNew_ok example_nodedev_env"
  "virPCIDeviceDetach_ret example_nodedev_env = 0"
  "xenStoreListDomains_ret example_nodedev_env 2 = Some [1, 5]"
  "xenStoreDomainGetPCIID_ret example_nodedev_env 1 ''0000:03:00.0'' = None"
  "xenStoreDomainGetPCIID_ret example_nodedev_env 5 ''0000:03:00.0'' = Some ''0''"
  by (simp_all add: example_nodedev_env_def)

lemma example_assigned:
  "xenUnifiedNodeDeviceAssignedDomainId example_nodedev_env
     = (5, None, [StoreGetPCIID 1 ''0000:03:00.0'', StoreGetPCIID 5 ''0000:03:00.0''])"
  by (simp add: xenUnifiedNodeDeviceAssignedDomainId_def example_pci_info example_bdf
      example_store)

text \<open>
  C2, as stated, fails: the device is assigned to the running domain 5 and detach
  returns 0.
\<close>

theorem detach_assigned_counterexample:
  "fst (xenUnifiedNodeDeviceAssignedDomainId example_nodedev_env) = 5
   \<and> xenUnifiedNodeDeviceDetachFlags example_nodedev_env None 0
       = (0, None, [PCIDeviceDetach (0, 3, 0, 0)])"
  by (simp add: example_assigned xenUnifiedNodeDeviceDetachFlags_def virCheckFlags_def
      example_pci_info example_store)

text \<open>On the same device re-attach is refused after the lookups in domains 1 and 5.\<close>

theorem reattach_refuses_assigned_witness:
  "xenUnifiedNodeDeviceReAttach example_nodedev_env
     = (- 1, Some VIR_ERR_INTERNAL_ERROR,
        [StoreGetPCIID 1 ''0000:03:00.0'', StoreGetPCIID 5 ''0000:03:00.0''])
   \<and> xenUnifiedNodeDeviceDetachFlags example_nodedev_env None 0
       = (0, None, [PCIDeviceDetach (0, 3, 0, 0)])"
proof -
  have new: "virPCIDeviceNew_ok example_nodedev_env"
    and n: "0 < xenStoreNumOfDomains_ret example_nodedev_env"
    and al: "alloc_ids_ok example_nodedev_env"
    and bdf: "asprintf_bdf_ok example_nodedev_env"
    and ld: "xenStoreListDomains_ret example_nodedev_env
               (xenStoreNumOfDomains_ret example_nodedev_env) = Some [1, 5]"
    and d: "5 \<in> set (take (nat (xenStoreNumOfDomains_ret example_nodedev_env)) [1, 5])"
    and asg: "xenStoreDomainGetPCIID_ret example_nodedev_env 5 (pci_bdf (0, 3, 0, 0)) \<noteq> None"
    by (simp_all add: example_store example_bdf)
  have nonneg: "\<forall>i \<in> set [1, 5 :: int]. 0 \<le> i" by simp
  have det: "virPCIDeviceDetach_ret example_nodedev_env = 0"
    by (simp add: example_store)
  have re: "xenUnifiedNodeDeviceReAttach example_nodedev_env
     = (- 1, Some VIR_ERR_INTERNAL_ERROR,
        [StoreGetPCIID 1 ''0000:03:00.0'', StoreGetPCIID 5 ''0000:03:00.0''])"
    using new by (simp add: xenUnifiedNodeDeviceReAttach_def example_pci_info example_assigned)
  from reattach_refuses_assigned [OF example_pci_info new n al bdf ld nonneg d asg] det re
  show ?thesis by simp
qed

end
